theory Spec2Isabelle
  imports Main "HOL-Library.Sublist" "HOL-Library.Multiset"
begin

section \<open>The caching layer of the livestreaming backend\<close>

text \<open>
  The handlers of \<^verbatim>\<open>bcryptHandler.go\<close>, \<^verbatim>\<open>livecomment_handler.go\<close> and the
  user handlers are embedded as functions that take the process state and return the
  response together with the new state. Go strings are byte sequences, and so is
  \<^typ>\<open>string\<close>. Identifiers are \<^verbatim>\<open>int64\<close> values on which the code does no
  arithmetic; they are modelled as \<^typ>\<open>int\<close>.
\<close>

subsection \<open>The generic keyed store\<close>

text \<open>
  Modelled from the spec: the declaration of the generic type \<^verbatim>\<open>Map[K, V]\<close> behind
  \<^verbatim>\<open>cache\<close>, \<^verbatim>\<open>userCache\<close> and \<^verbatim>\<open>ngWordsCache\<close> is not among the source files.
  The spec gives it three operations, Load, Store and Delete, where Load answers a value
  and a found flag, and deleting an absent key does nothing. A miss (zero value, found =
  false) is \<^const>\<open>None\<close> here.
\<close>

type_synonym ('k, 'v) Map = "'k \<rightharpoonup> 'v"

definition Load :: "('k, 'v) Map \<Rightarrow> 'k \<Rightarrow> 'v option" where
  "Load m k = m k"

definition Store :: "('k, 'v) Map \<Rightarrow> 'k \<Rightarrow> 'v \<Rightarrow> ('k, 'v) Map" where
  "Store m k v = m(k \<mapsto> v)"

definition Delete :: "('k, 'v) Map \<Rightarrow> 'k \<Rightarrow> ('k, 'v) Map" where
  "Delete m k = m(k := None)"

subsection \<open>Errors and responses\<close>

text \<open>
  A Go \<^verbatim>\<open>error\<close> coming from the database driver or the filesystem. \<^verbatim>\<open>sql.ErrNoRows\<close>
  is the only error the code tells apart; every other one carries its message.
\<close>

datatype goerr = ErrNoRows | ErrOther string

fun Error :: "goerr \<Rightarrow> string" where
  "Error ErrNoRows = ''sql: no rows in result set''"
| "Error (ErrOther msg) = msg"

text \<open>
  What a handler hands back to the framework: a JSON body with its status, a bare status,
  an \<^verbatim>\<open>echo.NewHTTPError\<close>, an error returned as it is, or a panic (a nil dereference or a
  failed type assertion).
\<close>

datatype 'a response =
    JSON nat 'a
  | NoContent nat
  | HTTPError nat string
  | Err goerr
  | Panic

definition StatusOK :: nat where "StatusOK = 200"
definition StatusCreated :: nat where "StatusCreated = 201"
definition StatusBadRequest :: nat where "StatusBadRequest = 400"
definition StatusUnauthorized :: nat where "StatusUnauthorized = 401"
definition StatusForbidden :: nat where "StatusForbidden = 403"
definition StatusNotFound :: nat where "StatusNotFound = 404"
definition StatusInternalServerError :: nat where "StatusInternalServerError = 500"

subsection \<open>The credential verification cache (bcryptHandler.go)\<close>

record PostBcryptCompairHandler =
  Password :: string
  HashedPassword :: string

text \<open>
  The outcome of \<^verbatim>\<open>bcrypt.CompareHashAndPassword\<close>, a library function: nil, the
  mismatch error, or another error (a malformed hash, say).
\<close>

datatype bcrypt_result = Matched | ErrMismatchedHashAndPassword | ErrBcrypt string

text \<open>
  \<^verbatim>\<open>bcryptCompairHandler\<close>, the second version in the file (the one with the cache). The
  request is the outcome of \<^verbatim>\<open>c.Bind\<close>; the comparison is a parameter. The state is the
  package variable \<^verbatim>\<open>cache\<close>.
\<close>

definition bcryptCompairHandler ::
  "(string \<Rightarrow> string \<Rightarrow> bcrypt_result) \<Rightarrow> (string, bool) Map
    \<Rightarrow> goerr + PostBcryptCompairHandler \<Rightarrow> unit response \<times> (string, bool) Map" where
  "bcryptCompairHandler CompareHashAndPassword cache bound =
     (case bound of
        Inl err \<Rightarrow> (Err err, cache)
      | Inr req \<Rightarrow>
          (case Load cache (HashedPassword req @ '':'' @ Password req) of
             Some equal \<Rightarrow>
               (if equal then (NoContent 200, cache)
                else (HTTPError StatusUnauthorized ''invalid username or password'', cache))
           | None \<Rightarrow>
               (case CompareHashAndPassword (HashedPassword req) (Password req) of
                  ErrMismatchedHashAndPassword \<Rightarrow>
                    (HTTPError StatusUnauthorized ''invalid username or password'',
                     Store cache (HashedPassword req @ ''-'' @ Password req) False)
                | ErrBcrypt msg \<Rightarrow> (Err (ErrOther msg), cache)
                | Matched \<Rightarrow>
                    (NoContent 200,
                     Store cache (HashedPassword req @ ''-'' @ Password req) True))))"

subsection \<open>Time\<close>

text \<open>
  An instant (\<^verbatim>\<open>time.Time\<close>) is a number of nanoseconds and a \<^verbatim>\<open>time.Duration\<close> is
  one too, as in Go. Steps of the wall clock and the saturation of \<^verbatim>\<open>Add\<close> at the ends
  of the \<^verbatim>\<open>int64\<close> range are not modelled. A handler reads the clock once: every
  \<^verbatim>\<open>time.Now()\<close> of one request is the same instant \<open>now\<close>.
\<close>

definition Millisecond :: int where "Millisecond = 1000000"
definition Second :: int where "Second = 1000 * Millisecond"

definition Add :: "int \<Rightarrow> int \<Rightarrow> int" where "Add t d = t + d"
definition After :: "int \<Rightarrow> int \<Rightarrow> bool" where "After t u = (t > u)"
definition Unix :: "int \<Rightarrow> int" where "Unix t = t div Second"

subsection \<open>Rows, responses and the process state\<close>

text \<open>
  The structs of the source. Several of them have a field \<^verbatim>\<open>ID\<close> or \<^verbatim>\<open>UserID\<close>, so
  each field carries a prefix that names its struct.
\<close>

record UserModel =
  um_ID :: int
  um_Name :: string
  um_DisplayName :: string
  um_Description :: string
  um_HashedPassword :: string
  um_IconHash :: "string option"

record Theme =
  theme_ID :: int
  theme_DarkMode :: bool

record User =
  user_ID :: int
  user_Name :: string
  user_DisplayName :: string
  user_Description :: string
  user_Theme :: Theme
  user_IconHash :: string

record ThemeModel =
  tm_ID :: int
  tm_UserID :: int
  tm_DarkMode :: bool

record cachedUser =
  user :: User
  fetchedAt :: int

record NGWord =
  ng_ID :: int
  ng_UserID :: int
  ng_LivestreamID :: int
  ng_Word :: string
  ng_CreatedAt :: int

record LivecommentModel =
  lc_ID :: int
  lc_UserID :: int
  lc_LivestreamID :: int
  lc_Comment :: string
  lc_Tip :: int
  lc_CreatedAt :: int

text \<open>
  \<^verbatim>\<open>LivestreamModel\<close> and \<^verbatim>\<open>Livestream\<close> are declared outside the source files. Of the
  first the code reads the fields \<^verbatim>\<open>ID\<close> and \<^verbatim>\<open>UserID\<close>; the second is only passed on
  and stays a type parameter \<open>'ls\<close>.
\<close>

record LivestreamModel =
  ls_ID :: int
  ls_UserID :: int

record 'ls Livecomment =
  c_ID :: int
  c_User :: User
  c_Livestream :: 'ls
  c_Comment :: string
  c_Tip :: int
  c_CreatedAt :: int

record PostLivecommentRequest =
  req_Comment :: string
  req_Tip :: int

record ModerateRequest =
  req_NGWord :: string

text \<open>The tables the modelled statements read and write, with their auto-increment counters.\<close>

record database =
  users :: "UserModel list"
  themes :: "ThemeModel list"
  ng_words :: "NGWord list"
  livecomments :: "LivecommentModel list"
  ng_words_next_id :: int
  livecomments_next_id :: int

text \<open>
  Every statement and every effect on a cache leaves an event in a trace, the newest last,
  so that the order of the effects and the keys they use can be read off.
\<close>

datatype dbop =
    Begin | Commit | SelectNgWords | InsertNgWord | LastInsertId | DeleteLivecomments
  | InsertLivecomment | SelectUser | SelectTheme

datatype fsop = StatIcon | ReadIcon | ReadFallback

datatype event =
    NgWordsLoad int
  | NgWordsStore int
  | NgWordsDelete int
  | UserLoad int
  | UserStore int
  | DB dbop
  | FS fsop
  | GetLivestream int
  | FillLivestreamResponse int
  | Sleep int

record process =
  dbConn :: database
  ngWordsCache :: "(int, NGWord list) Map"
  userCache :: "(int, cachedUser) Map"
  trace :: "event list"

definition logE :: "event \<Rightarrow> process \<Rightarrow> process" where
  "logE e w = w\<lparr>trace := trace w @ [e]\<rparr>"

text \<open>
  The collaborators. \<open>fault\<close> says which statement the database driver fails and with what
  error. \<^verbatim>\<open>getLivestream\<close> and \<^verbatim>\<open>fillLivestreamResponse\<close> are functions of the
  repository that are not among the source files; no modelled statement writes the
  livestreams table, so they are fixed functions here. \<open>sqlLike comment word\<close> is MySQL's
  \<^verbatim>\<open>comment like CONCAT('%', word, '%')\<close>. \<open>Stat\<close> and \<open>ReadFile\<close> are \<^verbatim>\<open>os.Stat\<close> and
  \<^verbatim>\<open>os.ReadFile\<close> on a user's icon file, \<open>ReadFallbackImage\<close> is \<^verbatim>\<open>os.ReadFile\<close> on
  the fallback image, and \<open>Sum256hex image\<close> is \<^verbatim>\<open>fmt.Sprintf("%x", sha256.Sum256(image))\<close>.
\<close>

datatype stat_result = StatOK | StatNotExist | StatError goerr

record 'ls env =
  fault :: "dbop \<Rightarrow> goerr option"
  getLivestream :: "int \<Rightarrow> goerr + LivestreamModel"
  fillLivestreamResponse :: "LivestreamModel \<Rightarrow> goerr + 'ls"
  sqlLike :: "string \<Rightarrow> string \<Rightarrow> bool"
  Stat :: "int \<Rightarrow> stat_result"
  ReadFile :: "int \<Rightarrow> goerr + string"
  ReadFallbackImage :: "goerr + string"
  Sum256hex :: "string \<Rightarrow> string"

subsection \<open>Requests and the session\<close>

text \<open>
  The session as \<^verbatim>\<open>verifyUserSession\<close> reads it: whether \<^verbatim>\<open>session.Get\<close> failed, and the
  values under \<^verbatim>\<open>EXPIRES\<close> and \<^verbatim>\<open>USERID\<close> when they are present (and, for the user id,
  an \<^verbatim>\<open>int64\<close>). The login handler stores \<^verbatim>\<open>EXPIRES\<close> as an \<^verbatim>\<open>int64\<close>.
\<close>

record session =
  GetFailed :: bool
  EXPIRES :: "int option"
  USERID :: "int option"

text \<open>
  The outcome of decoding a JSON body into a pointer: an error, or the pointer, which is
  nil (\<^const>\<open>None\<close>) for the body \<^verbatim>\<open>null\<close>.
\<close>

datatype 'b decoded = DecodeError | Decoded "'b option"

text \<open>
  A request: its session, the outcome of \<^verbatim>\<open>strconv.Atoi\<close> on the path parameter
  \<^verbatim>\<open>livestream_id\<close> (\<^const>\<open>None\<close> when it is not an integer), and its decoded body.
\<close>

record 'b request =
  sess :: session
  livestream_id :: "int option"
  body :: "'b decoded"

definition verifyUserSession :: "int \<Rightarrow> session \<Rightarrow> 'a response option" where
  "verifyUserSession now s =
     (if GetFailed s then Some (HTTPError StatusUnauthorized ''failed to get session'')
      else
        (case EXPIRES s of
           None \<Rightarrow> Some (HTTPError StatusForbidden ''failed to get EXPIRES value from session'')
         | Some sessionExpires \<Rightarrow>
             (case USERID s of
                None \<Rightarrow>
                  Some (HTTPError StatusUnauthorized ''failed to get USERID value from session'')
              | Some _ \<Rightarrow>
                  (if Unix now > sessionExpires
                   then Some (HTTPError StatusUnauthorized ''session has expired'')
                   else None))))"

subsection \<open>The profile assembly cache (getUserResponse, fillUserResponse)\<close>

text \<open>\<^verbatim>\<open>SELECT * FROM users WHERE id = ?\<close> and \<^verbatim>\<open>SELECT * FROM themes WHERE user_id = ?\<close>
  through \<^verbatim>\<open>GetContext\<close>: the first row, or \<^verbatim>\<open>sql.ErrNoRows\<close>.\<close>

definition selectUser :: "'ls env \<Rightarrow> database \<Rightarrow> int \<Rightarrow> goerr + UserModel" where
  "selectUser env d uid =
     (case fault env SelectUser of
        Some err \<Rightarrow> Inl err
      | None \<Rightarrow>
          (case filter (\<lambda>u. um_ID u = uid) (users d) of
             [] \<Rightarrow> Inl ErrNoRows
           | model # _ \<Rightarrow> Inr model))"

definition selectTheme :: "'ls env \<Rightarrow> database \<Rightarrow> int \<Rightarrow> goerr + ThemeModel" where
  "selectTheme env d uid =
     (case fault env SelectTheme of
        Some err \<Rightarrow> Inl err
      | None \<Rightarrow>
          (case filter (\<lambda>t. tm_UserID t = uid) (themes d) of
             [] \<Rightarrow> Inl ErrNoRows
           | themeModel # _ \<Rightarrow> Inr themeModel))"

text \<open>The struct literal that ends \<^verbatim>\<open>fillUserResponse\<close>.\<close>

definition userOf :: "UserModel \<Rightarrow> ThemeModel \<Rightarrow> string \<Rightarrow> User" where
  "userOf userModel themeModel iconHash =
     \<lparr>user_ID = um_ID userModel,
      user_Name = um_Name userModel,
      user_DisplayName = um_DisplayName userModel,
      user_Description = um_Description userModel,
      user_Theme = \<lparr>theme_ID = tm_ID themeModel, theme_DarkMode = tm_DarkMode themeModel\<rparr>,
      user_IconHash = iconHash\<rparr>"

text \<open>
  \<^verbatim>\<open>fillUserResponse\<close>. When the icon file does not exist the fallback image is read and
  the error of that read is assigned but never looked at: the hash is then taken of the
  empty image.
\<close>

definition fillUserResponse :: "'ls env \<Rightarrow> process \<Rightarrow> UserModel \<Rightarrow> (goerr + User) \<times> process" where
  "fillUserResponse env w userModel =
     (let w1 = logE (DB SelectTheme) w in
      case selectTheme env (dbConn w1) (um_ID userModel) of
        Inl err \<Rightarrow> (Inl err, w1)
      | Inr themeModel \<Rightarrow>
          (case um_IconHash userModel of
             Some iconHash \<Rightarrow> (Inr (userOf userModel themeModel iconHash), w1)
           | None \<Rightarrow>
               (let w2 = logE (FS StatIcon) w1 in
                case Stat env (um_ID userModel) of
                  StatNotExist \<Rightarrow>
                    (let w3 = logE (FS ReadFallback) w2;
                         img = (case ReadFallbackImage env of Inl _ \<Rightarrow> [] | Inr bytes \<Rightarrow> bytes)
                     in (Inr (userOf userModel themeModel (Sum256hex env img)), w3))
                | StatError err \<Rightarrow> (Inl err, w2)
                | StatOK \<Rightarrow>
                    (let w3 = logE (FS ReadIcon) w2 in
                     case ReadFile env (um_ID userModel) of
                       Inl err \<Rightarrow> (Inl err, w3)
                     | Inr img \<Rightarrow>
                         (Inr (userOf userModel themeModel (Sum256hex env img)), w3)))))"

text \<open>
  \<^verbatim>\<open>getUserResponse\<close>. On a miss \<^verbatim>\<open>fetched\<close> is the zero struct; both of its fields are
  assigned before it is stored.
\<close>

definition getUserResponse :: "'ls env \<Rightarrow> int \<Rightarrow> process \<Rightarrow> int \<Rightarrow> (goerr + User) \<times> process" where
  "getUserResponse env now w uid =
     (let fetched = Load (userCache w) uid;
          w1 = logE (UserLoad uid) w;
          rebuild =
            (let w2 = logE (DB SelectUser) w1 in
             case selectUser env (dbConn w2) uid of
               Inl err \<Rightarrow> (if err = ErrNoRows then (Inl ErrNoRows, w2) else (Inl err, w2))
             | Inr model \<Rightarrow>
                 (case fillUserResponse env w2 model of
                    (Inl err, w3) \<Rightarrow> (Inl err, w3)
                  | (Inr usr, w3) \<Rightarrow>
                      (Inr usr,
                       logE (UserStore uid)
                         (w3\<lparr>userCache :=
                                Store (userCache w3) uid \<lparr>user = usr, fetchedAt = now\<rparr>\<rparr>))))
      in
        case fetched of
          None \<Rightarrow> rebuild
        | Some f \<Rightarrow>
            (if After (Add (fetchedAt f) (1 * Second + 300 * Millisecond)) now
             then (Inr (user f), w1)
             else rebuild))"

subsection \<open>The moderation word cache (livecomment_handler.go)\<close>

text \<open>
  \<^verbatim>\<open>SELECT * FROM ng_words WHERE livestream_id = ? ORDER BY created_at DESC\<close>: the rows
  of the stream, the latest creation time first. SQL leaves the order of rows with equal
  creation time open; the properties below use only that the result has the stream's rows
  and is sorted.
\<close>

definition selectNgWords :: "'ls env \<Rightarrow> database \<Rightarrow> int \<Rightarrow> goerr + NGWord list" where
  "selectNgWords env d livestreamID =
     (case fault env SelectNgWords of
        Some err \<Rightarrow> Inl err
      | None \<Rightarrow>
          Inr (rev (sort_key ng_CreatedAt
                 (filter (\<lambda>w. ng_LivestreamID w = livestreamID) (ng_words d)))))"

text \<open>The two inserts give the row the next auto-increment id, which \<^verbatim>\<open>LastInsertId\<close> then reports.\<close>

definition insertNgWord :: "database \<Rightarrow> NGWord \<Rightarrow> int \<times> database" where
  "insertNgWord d row =
     (ng_words_next_id d,
      d\<lparr>ng_words := ng_words d @ [row\<lparr>ng_ID := ng_words_next_id d\<rparr>],
        ng_words_next_id := ng_words_next_id d + 1\<rparr>)"

definition insertLivecomment :: "database \<Rightarrow> LivecommentModel \<Rightarrow> int \<times> database" where
  "insertLivecomment d row =
     (livecomments_next_id d,
      d\<lparr>livecomments := livecomments d @ [row\<lparr>lc_ID := livecomments_next_id d\<rparr>],
        livecomments_next_id := livecomments_next_id d + 1\<rparr>)"

text \<open>\<^verbatim>\<open>DELETE FROM livecomments WHERE livestream_id = ? AND comment like CONCAT('%', ?, '%')\<close>.\<close>

definition deleteLivecomments :: "'ls env \<Rightarrow> database \<Rightarrow> int \<Rightarrow> string \<Rightarrow> database" where
  "deleteLivecomments env d livestreamID word =
     d\<lparr>livecomments :=
         filter (\<lambda>c. \<not> (lc_LivestreamID c = livestreamID \<and> sqlLike env (lc_Comment c) word))
           (livecomments d)\<rparr>"

text \<open>A deferred \<^verbatim>\<open>tx.Rollback()\<close> that runs before a commit: the rows are as they were
  at \<^verbatim>\<open>BeginTxx\<close>; an auto-increment id that an insert has taken is not given back.
  After a commit it does nothing.\<close>

definition Rollback :: "process \<Rightarrow> process \<Rightarrow> process" where
  "Rollback w0 w =
     w\<lparr>dbConn :=
         (dbConn w0)\<lparr>ng_words_next_id := ng_words_next_id (dbConn w),
                      livecomments_next_id := livecomments_next_id (dbConn w)\<rparr>\<rparr>"

text \<open>\<^verbatim>\<open>strings.Contains\<close>: whether \<open>substr\<close> occurs in \<open>s\<close>, byte for byte.\<close>

fun Contains :: "string \<Rightarrow> string \<Rightarrow> bool" where
  "Contains [] substr = (substr = [])"
| "Contains (c # s) substr = (prefix substr (c # s) \<or> Contains s substr)"

text \<open>The loop of the spam check: true when it returns the rejection.\<close>

fun spamHit :: "string \<Rightarrow> NGWord list \<Rightarrow> bool" where
  "spamHit comment [] = False"
| "spamHit comment (ngword # ngwords) =
     (if Contains comment (ng_Word ngword) then True else spamHit comment ngwords)"

text \<open>The message of the spam rejection, in UTF-8.\<close>

definition spamMessage :: string where
  "spamMessage = map char_of
     [227, 129, 147, 227, 129, 174, 227, 130, 179, 227, 131, 161, 227, 131, 179, 227, 131,
      136, 227, 129, 140, 227, 130, 185, 227, 131, 145, 227, 131, 160, 229, 136, 164, 229,
      174, 154, 227, 129, 149, 227, 130, 140, 227, 129, 190, 227, 129, 151, 227, 129,
      159 :: nat]"

text \<open>\<^verbatim>\<open>getNgwords\<close>. It reads through \<^verbatim>\<open>dbConn\<close>, without a transaction.\<close>

definition getNgwords ::
  "'ls env \<Rightarrow> int \<Rightarrow> process \<Rightarrow> unit request \<Rightarrow> NGWord list response \<times> process" where
  "getNgwords env now w r =
     (case verifyUserSession now (sess r) of
        Some resp \<Rightarrow> (resp, w)
      | None \<Rightarrow>
     (case USERID (sess r) of
        None \<Rightarrow> (Panic, w)
      | Some userID \<Rightarrow>
     (case livestream_id r of
        None \<Rightarrow> (HTTPError StatusBadRequest ''livestream_id in path must be integer'', w)
      | Some livestreamID \<Rightarrow>
     (let w1 = logE (GetLivestream livestreamID) w in
      case getLivestream env livestreamID of
        Inl err \<Rightarrow> (JSON StatusOK [], w1)
      | Inr liveStream \<Rightarrow>
          (if ls_UserID liveStream \<noteq> userID then (JSON StatusOK [], w1)
           else
             (let w2 = logE (NgWordsLoad livestreamID) w1 in
              case Load (ngWordsCache w2) livestreamID of
                Some ngWords \<Rightarrow> (JSON StatusOK ngWords, w2)
              | None \<Rightarrow>
                  (let w3 = logE (DB SelectNgWords) w2 in
                   case selectNgWords env (dbConn w3) livestreamID of
                     Inl err \<Rightarrow>
                       (if err = ErrNoRows then (JSON StatusOK [], w3)
                        else (HTTPError StatusInternalServerError
                                (''failed to get NG words: '' @ Error err), w3))
                   | Inr ngWords \<Rightarrow>
                       (JSON StatusOK ngWords,
                        logE (NgWordsStore livestreamID)
                          (w3\<lparr>ngWordsCache :=
                                 Store (ngWordsCache w3) livestreamID ngWords\<rparr>)))))))))"

text \<open>\<^verbatim>\<open>fillLivecommentResponse\<close>.\<close>

definition fillLivecommentResponse ::
  "'ls env \<Rightarrow> int \<Rightarrow> process \<Rightarrow> LivecommentModel \<Rightarrow> LivestreamModel option
    \<Rightarrow> (goerr + 'ls Livecomment) \<times> process" where
  "fillLivecommentResponse env now w livecommentModel cachedLivestreamModel =
     (case getUserResponse env now w (lc_UserID livecommentModel) of
        (Inl err, w1) \<Rightarrow> (Inl err, w1)
      | (Inr commentOwner, w1) \<Rightarrow>
          (case (case cachedLivestreamModel of
                   Some m \<Rightarrow> (Inr m, w1)
                 | None \<Rightarrow>
                     (getLivestream env (lc_LivestreamID livecommentModel),
                      logE (GetLivestream (lc_LivestreamID livecommentModel)) w1)) of
             (Inl err, w2) \<Rightarrow> (Inl err, w2)
           | (Inr livestreamModel, w2) \<Rightarrow>
               (let w3 = logE (FillLivestreamResponse (ls_ID livestreamModel)) w2 in
                case fillLivestreamResponse env livestreamModel of
                  Inl err \<Rightarrow> (Inl err, w3)
                | Inr livestream \<Rightarrow>
                    (Inr \<lparr>c_ID = lc_ID livecommentModel,
                          c_User = commentOwner,
                          c_Livestream = livestream,
                          c_Comment = lc_Comment livecommentModel,
                          c_Tip = lc_Tip livecommentModel,
                          c_CreatedAt = lc_CreatedAt livecommentModel\<rparr>, w3))))"

text \<open>
  \<^verbatim>\<open>postLivecommentHandler\<close>. Everything after \<^verbatim>\<open>BeginTxx\<close> runs in the transaction; a
  return before the commit rolls the tables back, the caches keep what was stored. On
  \<^verbatim>\<open>sql.ErrNoRows\<close> from the word query the handler goes on with the list it has, which is
  nil after a miss.
\<close>

definition postLivecommentHandler ::
  "'ls env \<Rightarrow> int \<Rightarrow> process \<Rightarrow> PostLivecommentRequest request
    \<Rightarrow> 'ls Livecomment response \<times> process" where
  "postLivecommentHandler env now w r =
     (case body r of
        DecodeError \<Rightarrow>
          (HTTPError StatusBadRequest ''failed to decode the request body as json'', w)
      | Decoded None \<Rightarrow> (Panic, w)
      | Decoded (Some req) \<Rightarrow>
     (case verifyUserSession now (sess r) of
        Some resp \<Rightarrow> (resp, w)
      | None \<Rightarrow>
     (case livestream_id r of
        None \<Rightarrow> (HTTPError StatusBadRequest ''livestream_id in path must be integer'', w)
      | Some livestreamID \<Rightarrow>
     (case USERID (sess r) of
        None \<Rightarrow> (Panic, w)
      | Some userID \<Rightarrow>
     (let w1 = logE (DB Begin) w in
      case fault env Begin of
        Some err \<Rightarrow>
          (HTTPError StatusInternalServerError
             (''failed to begin transaction: '' @ Error err), w1)
      | None \<Rightarrow>
     (let w2 = logE (GetLivestream livestreamID) w1 in
      case getLivestream env livestreamID of
        Inl err \<Rightarrow>
          (if err = ErrNoRows then (HTTPError StatusNotFound ''livestream not found'', w2)
           else (HTTPError StatusInternalServerError
                   (''failed to get livestream: '' @ Error err), w2))
      | Inr livestreamModel \<Rightarrow>
     (let w3 = logE (NgWordsLoad (ls_UserID livestreamModel)) w2 in
      case (case Load (ngWordsCache w3) (ls_UserID livestreamModel) of
              Some ngwords \<Rightarrow> (Inr ngwords, w3)
            | None \<Rightarrow>
                (let w4 = logE (DB SelectNgWords) w3 in
                 case selectNgWords env (dbConn w4) (ls_ID livestreamModel) of
                   Inl err \<Rightarrow>
                     (if err \<noteq> ErrNoRows then (Inl err, w4)
                      else (Inr [],
                            logE (NgWordsStore (ls_ID livestreamModel))
                              (w4\<lparr>ngWordsCache :=
                                     Store (ngWordsCache w4) (ls_ID livestreamModel) []\<rparr>)))
                 | Inr ngwords \<Rightarrow>
                     (Inr ngwords,
                      logE (NgWordsStore (ls_ID livestreamModel))
                        (w4\<lparr>ngWordsCache :=
                               Store (ngWordsCache w4) (ls_ID livestreamModel) ngwords\<rparr>)))) of
        (Inl err, w5) \<Rightarrow>
          (HTTPError StatusInternalServerError (''failed to get NG words: '' @ Error err), w5)
      | (Inr ngwords, w5) \<Rightarrow>
     (if spamHit (req_Comment req) ngwords then (HTTPError StatusBadRequest spamMessage, w5)
      else
     (let livecommentModel =
            \<lparr>lc_ID = 0, lc_UserID = userID, lc_LivestreamID = livestreamID,
             lc_Comment = req_Comment req, lc_Tip = req_Tip req, lc_CreatedAt = Unix now\<rparr>;
          w6 = logE (DB InsertLivecomment) w5
      in
      case fault env InsertLivecomment of
        Some err \<Rightarrow>
          (HTTPError StatusInternalServerError
             (''failed to insert livecomment: '' @ Error err), Rollback w w6)
      | None \<Rightarrow>
     (let (livecommentID, d) = insertLivecomment (dbConn w6) livecommentModel;
          w7 = logE (DB LastInsertId) (w6\<lparr>dbConn := d\<rparr>)
      in
      case fault env LastInsertId of
        Some err \<Rightarrow>
          (HTTPError StatusInternalServerError
             (''failed to get last inserted livecomment id: '' @ Error err), Rollback w w7)
      | None \<Rightarrow>
     (case fillLivecommentResponse env now w7
             (livecommentModel\<lparr>lc_ID := livecommentID\<rparr>) None of
        (Inl err, w8) \<Rightarrow>
          (HTTPError StatusInternalServerError
             (''failed to fill livecomment: '' @ Error err), Rollback w w8)
      | (Inr livecomment, w8) \<Rightarrow>
     (let w9 = logE (DB Commit) w8 in
      case fault env Commit of
        Some err \<Rightarrow>
          (HTTPError StatusInternalServerError
             (''failed to commit: '' @ Error err), Rollback w w9)
      | None \<Rightarrow> (JSON StatusCreated livecomment, w9)))))))))))))"

text \<open>
  \<^verbatim>\<open>moderateHandler\<close> up to and including the commit: an early return, or the stream id
  and the id of the new word.
\<close>

definition moderateHandler_commit ::
  "'ls env \<Rightarrow> int \<Rightarrow> process \<Rightarrow> ModerateRequest request
    \<Rightarrow> (int response + int \<times> int) \<times> process" where
  "moderateHandler_commit env now w r =
     (case verifyUserSession now (sess r) of
        Some resp \<Rightarrow> (Inl resp, w)
      | None \<Rightarrow>
     (case livestream_id r of
        None \<Rightarrow> (Inl (HTTPError StatusBadRequest ''livestream_id in path must be integer''), w)
      | Some livestreamID \<Rightarrow>
     (case USERID (sess r) of
        None \<Rightarrow> (Inl Panic, w)
      | Some userID \<Rightarrow>
     (case body r of
        DecodeError \<Rightarrow>
          (Inl (HTTPError StatusBadRequest ''failed to decode the request body as json''), w)
      | Decoded req \<Rightarrow>
     (let w1 = logE (DB Begin) w in
      case fault env Begin of
        Some err \<Rightarrow>
          (Inl (HTTPError StatusInternalServerError
                  (''failed to begin transaction: '' @ Error err)), w1)
      | None \<Rightarrow>
     (let w2 = logE (GetLivestream livestreamID) w1 in
      case getLivestream env livestreamID of
        Inl err \<Rightarrow>
          (Inl (HTTPError StatusInternalServerError
                  (''failed to get livestreams: '' @ Error err)), w2)
      | Inr livestreamModel \<Rightarrow>
     (if ls_UserID livestreamModel \<noteq> userID
      then (Inl (HTTPError StatusBadRequest
                   ''A streamer can't moderate livestreams that other streamers own''), w2)
      else
     (case req of
        None \<Rightarrow> (Inl Panic, w2)
      | Some req \<Rightarrow>
     (let w3 = logE (DB InsertNgWord) w2 in
      case fault env InsertNgWord of
        Some err \<Rightarrow>
          (Inl (HTTPError StatusInternalServerError
                  (''failed to insert new NG word: '' @ Error err)), Rollback w w3)
      | None \<Rightarrow>
     (let (wordID, d) =
            insertNgWord (dbConn w3)
              \<lparr>ng_ID = 0, ng_UserID = userID, ng_LivestreamID = livestreamID,
               ng_Word = req_NGWord req, ng_CreatedAt = Unix now\<rparr>;
          w4 = logE (DB LastInsertId) (w3\<lparr>dbConn := d\<rparr>)
      in
      case fault env LastInsertId of
        Some err \<Rightarrow>
          (Inl (HTTPError StatusInternalServerError
                  (''failed to get last inserted NG word id: '' @ Error err)), Rollback w w4)
      | None \<Rightarrow>
     (let w5 = logE (DB DeleteLivecomments) w4 in
      case fault env DeleteLivecomments of
        Some err \<Rightarrow>
          (Inl (HTTPError StatusInternalServerError
                  (''failed to delete old livecomments that hit spams: '' @ Error err)),
           Rollback w w5)
      | None \<Rightarrow>
     (let w6 = logE (DB Commit)
                 (w5\<lparr>dbConn := deleteLivecomments env (dbConn w5) livestreamID (req_NGWord req)\<rparr>)
      in
      case fault env Commit of
        Some err \<Rightarrow>
          (Inl (HTTPError StatusInternalServerError (''failed to commit: '' @ Error err)),
           Rollback w w6)
      | None \<Rightarrow> (Inr (livestreamID, wordID), w6)))))))))))))"

text \<open>
  \<^verbatim>\<open>moderateHandler\<close>: after the commit, \<^verbatim>\<open>time.Sleep(500 * time.Millisecond)\<close>, the
  deletion of the stream's cache entry, and the response with the id of the word.
\<close>

definition moderateHandler ::
  "'ls env \<Rightarrow> int \<Rightarrow> process \<Rightarrow> ModerateRequest request \<Rightarrow> int response \<times> process" where
  "moderateHandler env now w r =
     (case moderateHandler_commit env now w r of
        (Inl resp, w') \<Rightarrow> (resp, w')
      | (Inr (livestreamID, wordID), w6) \<Rightarrow>
          (let w7 = logE (Sleep (500 * Millisecond)) w6;
               w8 = logE (NgWordsDelete livestreamID)
                      (w7\<lparr>ngWordsCache := Delete (ngWordsCache w7) livestreamID\<rparr>)
           in (JSON StatusCreated wordID, w8)))"

subsection \<open>The freshness rule in the spec's words\<close>

text \<open>
  The spec calls an entry fresh while \<open>now - fetchedAt < TTL\<close>, with a TTL of 1.3 seconds.
  This is the rule the code's test is compared with.
\<close>

definition spec_TTL :: int where "spec_TTL = 1300000000"

definition spec_fresh :: "(int, cachedUser) Map \<Rightarrow> int \<Rightarrow> int \<Rightarrow> bool" where
  "spec_fresh cache u now =
     (case cache u of None \<Rightarrow> False | Some f \<Rightarrow> now - fetchedAt f < spec_TTL)"

subsection \<open>Requests that pass the session check\<close>

text \<open>
  \<open>sessionValid now s uid\<close>: the session was read, it has not expired at \<open>now\<close>, and it
  carries the user id \<open>uid\<close>. These are the sessions \<^verbatim>\<open>verifyUserSession\<close> lets through.
\<close>

definition sessionValid :: "int \<Rightarrow> session \<Rightarrow> int \<Rightarrow> bool" where
  "sessionValid now s uid =
     (\<not> GetFailed s
      \<and> (case EXPIRES s of None \<Rightarrow> False | Some sessionExpires \<Rightarrow> Unix now \<le> sessionExpires)
      \<and> USERID s = Some uid)"

subsection \<open>A small concrete system\<close>

text \<open>
  User 7 owns the streams 42 and 43 and user 8 watches. The word \<open>spam\<close> is banned on
  stream 42, no word on stream 43.
  User 7's profile was cached at instant 0 with an older icon hash than the row has now.
\<close>

definition envW :: "unit env" where
  "envW =
     \<lparr>fault = (\<lambda>_. None),
      getLivestream =
        (\<lambda>i. if i = 42 \<or> i = 43 then Inr \<lparr>ls_ID = i, ls_UserID = 7\<rparr> else Inl ErrNoRows),
      fillLivestreamResponse = (\<lambda>_. Inr ()),
      sqlLike = (\<lambda>comment word. Contains comment word),
      Stat = (\<lambda>_. StatNotExist),
      ReadFile = (\<lambda>_. Inl (ErrOther ''unreadable'')),
      ReadFallbackImage = Inr ''NoImage'',
      Sum256hex = (\<lambda>img. ''sha256:'' @ img)\<rparr>"

definition dbW :: database where
  "dbW =
     \<lparr>users =
        [\<lparr>um_ID = 7, um_Name = ''streamer'', um_DisplayName = ''Streamer'',
          um_Description = ''live'', um_HashedPassword = ''h7'', um_IconHash = Some ''new-icon''\<rparr>,
         \<lparr>um_ID = 8, um_Name = ''viewer'', um_DisplayName = ''Viewer'',
          um_Description = ''watching'', um_HashedPassword = ''h8'', um_IconHash = None\<rparr>],
      themes =
        [\<lparr>tm_ID = 1, tm_UserID = 7, tm_DarkMode = True\<rparr>,
         \<lparr>tm_ID = 2, tm_UserID = 8, tm_DarkMode = False\<rparr>],
      ng_words =
        [\<lparr>ng_ID = 1, ng_UserID = 7, ng_LivestreamID = 42, ng_Word = ''spam'', ng_CreatedAt = 100\<rparr>],
      livecomments =
        [\<lparr>lc_ID = 1, lc_UserID = 8, lc_LivestreamID = 42, lc_Comment = ''hello'',
          lc_Tip = 0, lc_CreatedAt = 90\<rparr>,
         \<lparr>lc_ID = 2, lc_UserID = 8, lc_LivestreamID = 42, lc_Comment = ''buy scam now'',
          lc_Tip = 0, lc_CreatedAt = 95\<rparr>],
      ng_words_next_id = 2,
      livecomments_next_id = 3\<rparr>"

definition userOld :: User where
  "userOld =
     \<lparr>user_ID = 7, user_Name = ''streamer'', user_DisplayName = ''Streamer'',
      user_Description = ''live'', user_Theme = \<lparr>theme_ID = 1, theme_DarkMode = True\<rparr>,
      user_IconHash = ''old-icon''\<rparr>"

definition wCached :: process where
  "wCached =
     \<lparr>dbConn = dbW, ngWordsCache = Map.empty,
      userCache = [7 \<mapsto> \<lparr>user = userOld, fetchedAt = 0\<rparr>], trace = []\<rparr>"

text \<open>The same collaborators with a database that fails the theme query.\<close>

definition envThemeDown :: "unit env" where
  "envThemeDown =
     envW\<lparr>fault := (\<lambda>op. if op = SelectTheme then Some (ErrOther ''connection lost'') else None)\<rparr>"

text \<open>The sessions of the two users, a state with empty caches, and the tables with a second,
  later word on stream 42.\<close>

definition ownerSession :: session where
  "ownerSession = \<lparr>GetFailed = False, EXPIRES = Some 3600, USERID = Some 7\<rparr>"

definition viewerSession :: session where
  "viewerSession = \<lparr>GetFailed = False, EXPIRES = Some 3600, USERID = Some 8\<rparr>"

definition wEmpty :: process where
  "wEmpty = \<lparr>dbConn = dbW, ngWordsCache = Map.empty, userCache = Map.empty, trace = []\<rparr>"


text \<open>A state in which the list of stream 42 is cached, and the request that bans the word
  \<open>scam\<close> on stream 42.\<close>

definition wWarm :: process where
  "wWarm = wEmpty\<lparr>ngWordsCache := [42 \<mapsto> ng_words dbW]\<rparr>"

definition moderateScam :: "session \<Rightarrow> ModerateRequest request" where
  "moderateScam s =
     \<lparr>sess = s, livestream_id = Some 42, body = Decoded (Some \<lparr>req_NGWord = ''scam''\<rparr>)\<rparr>"

text \<open>A comment posted on a stream without a tip, and the profile of user 8 as the code
  assembles it.\<close>

definition postComment :: "session \<Rightarrow> int \<Rightarrow> string \<Rightarrow> PostLivecommentRequest request" where
  "postComment s L comment =
     \<lparr>sess = s, livestream_id = Some L,
      body = Decoded (Some \<lparr>req_Comment = comment, req_Tip = 0\<rparr>)\<rparr>"

definition viewerUser :: User where
  "viewerUser =
     \<lparr>user_ID = 8, user_Name = ''viewer'', user_DisplayName = ''Viewer'',
      user_Description = ''watching'', user_Theme = \<lparr>theme_ID = 2, theme_DarkMode = False\<rparr>,
      user_IconHash = ''sha256:NoImage''\<rparr>"


definition envNoFallback :: "unit env" where
  "envNoFallback =
     envW\<lparr>ReadFallbackImage :=
            Inl (ErrOther ''open ../img/NoImage.jpg: no such file or directory'')\<rparr>"

definition wStale8 :: process where
  "wStale8 = wEmpty\<lparr>userCache := [8 \<mapsto> \<lparr>user = viewerUser, fetchedAt = 0\<rparr>]\<rparr>"

definition envStreams :: "unit env" where
  "envStreams =
     envW\<lparr>getLivestream :=
            (\<lambda>i. if i = 42 then Inr \<lparr>ls_ID = 42, ls_UserID = 7\<rparr>
                 else if i = 7 then Inr \<lparr>ls_ID = 7, ls_UserID = 8\<rparr>
                 else Inl ErrNoRows)\<rparr>"

section \<open>Properties\<close>

lemmas status_defs = StatusOK_def StatusCreated_def StatusBadRequest_def
  StatusUnauthorized_def StatusForbidden_def StatusNotFound_def
  StatusInternalServerError_def

subsection \<open>The credential cache\<close>

lemma separator_keys_differ: "h @ '':'' @ p \<noteq> h @ ''-'' @ p"
  by simp

text \<open>
  Whatever the comparison answers, the handler leaves the entry it reads for a request
  as it found it: the key it stores under is never the key it loads.
\<close>

lemma bcryptCompairHandler_load_key_untouched:
  "Load (snd (bcryptCompairHandler cmp cache (Inr req)))
        (HashedPassword req @ '':'' @ Password req)
   = Load cache (HashedPassword req @ '':'' @ Password req)"
  by (simp add: bcryptCompairHandler_def Load_def Store_def
      split: option.splits bcrypt_result.splits)

text \<open>
  C1 (the stored outcome is found again under the same pair) fails on the code. With an
  empty cache, hash \<open>h\<close> and password \<open>p\<close>: a mismatch is stored under \<open>h-p\<close>, the
  lookup of the same pair reads \<open>h:p\<close> and misses, so the second request runs the
  comparison again and answers what the comparison now says, not the recorded outcome.
  The same holds on the matched branch.
\<close>

theorem C1_recorded_outcome_not_found:
  "(let req = \<lparr>Password = ''p'', HashedPassword = ''h''\<rparr>;
        (r1, c1) = bcryptCompairHandler (\<lambda>_ _. ErrMismatchedHashAndPassword) Map.empty (Inr req);
        (r2, c2) = bcryptCompairHandler (\<lambda>_ _. Matched) c1 (Inr req);
        (r3, c3) = bcryptCompairHandler (\<lambda>_ _. Matched) Map.empty (Inr req)
    in r1 = HTTPError 401 ''invalid username or password''
     \<and> Load c1 ''h-p'' = Some False
     \<and> Load c1 ''h:p'' = None
     \<and> r2 = NoContent 200
     \<and> Load c3 ''h-p'' = Some True
     \<and> Load c3 ''h:p'' = None)"
  by (simp add: bcryptCompairHandler_def Load_def Store_def StatusUnauthorized_def)

subsection \<open>The profile cache\<close>

lemmas fixture_defs = envW_def dbW_def userOld_def wCached_def

lemmas user_defs = getUserResponse_def fillUserResponse_def selectUser_def selectTheme_def
  userOf_def logE_def Load_def Store_def Let_def After_def Add_def Second_def Millisecond_def

lemma fillUserResponse_state:
  "fillUserResponse env w m = (res, w') \<Longrightarrow>
     dbConn w' = dbConn w \<and> userCache w' = userCache w \<and> ngWordsCache w' = ngWordsCache w
     \<and> (\<exists>rest. trace w' = trace w @ DB SelectTheme # rest)"
  by (auto simp: fillUserResponse_def logE_def Let_def
      split: option.splits sum.splits stat_result.splits)

lemma getUserResponse_fresh:
  "Load (userCache w) u = Some f \<Longrightarrow> now - fetchedAt f < spec_TTL \<Longrightarrow>
   getUserResponse env now w u = (Inr (user f), logE (UserLoad u) w)"
  by (simp add: getUserResponse_def Let_def After_def Add_def Second_def Millisecond_def spec_TTL_def)

lemma getUserResponse_not_fresh:
  "\<not> spec_fresh (userCache w) u now \<Longrightarrow>
   getUserResponse env now w u =
     (let w2 = logE (DB SelectUser) (logE (UserLoad u) w) in
      case selectUser env (dbConn w) u of
        Inl err \<Rightarrow> (Inl err, w2)
      | Inr model \<Rightarrow>
          (case fillUserResponse env w2 model of
             (Inl err, w3) \<Rightarrow> (Inl err, w3)
           | (Inr usr, w3) \<Rightarrow>
               (Inr usr,
                logE (UserStore u)
                  (w3\<lparr>userCache := Store (userCache w3) u \<lparr>user = usr, fetchedAt = now\<rparr>\<rparr>))))"
  by (auto simp: getUserResponse_def spec_fresh_def Load_def Let_def After_def Add_def Second_def
      Millisecond_def spec_TTL_def logE_def split: option.splits sum.splits)





lemma fillUserResponse_fst_cong:
  "themes (dbConn w) = themes (dbConn v)
   \<Longrightarrow> fst (fillUserResponse env w m) = fst (fillUserResponse env v m)"
  by (simp add: fillUserResponse_def selectTheme_def logE_def Let_def
      split: option.splits list.splits sum.splits stat_result.splits)

lemma getUserResponse_rebuild_fails:
  assumes nf: "\<not> spec_fresh (userCache w) u now"
    and fail: "selectUser env (dbConn w) u = Inl err
               \<or> (\<exists>model. selectUser env (dbConn w) u = Inr model
                     \<and> fst (fillUserResponse env w model) = Inl err)"
  shows "fst (getUserResponse env now w u) = Inl err"
    and "userCache (snd (getUserResponse env now w u)) = userCache w"
    and "dbConn (snd (getUserResponse env now w u)) = dbConn w"
proof -
  let ?w2 = "logE (DB SelectUser) (logE (UserLoad u) w)"
  have goal: "fst (getUserResponse env now w u) = Inl err
       \<and> userCache (snd (getUserResponse env now w u)) = userCache w
       \<and> dbConn (snd (getUserResponse env now w u)) = dbConn w"
  proof (cases "selectUser env (dbConn w) u")
    case (Inl e)
    with fail have "e = err" by auto
    with Inl show ?thesis
      by (simp add: getUserResponse_not_fresh[OF nf] Let_def logE_def)
  next
    case (Inr model)
    with fail have f: "fst (fillUserResponse env w model) = Inl err" by auto
    have "fst (fillUserResponse env ?w2 model) = fst (fillUserResponse env w model)"
      by (rule fillUserResponse_fst_cong) (simp add: logE_def)
    with f obtain w3 where fu: "fillUserResponse env ?w2 model = (Inl err, w3)"
      by (cases "fillUserResponse env ?w2 model") auto
    from fillUserResponse_state[OF fu] have "userCache w3 = userCache w" "dbConn w3 = dbConn w"
      by (simp_all add: logE_def)
    with Inr fu show ?thesis
      by (simp add: getUserResponse_not_fresh[OF nf] Let_def)
  qed
  from goal show "fst (getUserResponse env now w u) = Inl err"
    and "userCache (snd (getUserResponse env now w u)) = userCache w"
    and "dbConn (snd (getUserResponse env now w u)) = dbConn w" by simp_all
qed

lemma getUserResponse_error_keeps_cache:
  assumes run: "getUserResponse env now w u = (Inl err, w')"
  shows "userCache w' = userCache w"
proof (cases "spec_fresh (userCache w) u now")
  case True
  then obtain f where f: "Load (userCache w) u = Some f" "now - fetchedAt f < spec_TTL"
    by (auto simp: spec_fresh_def Load_def split: option.splits)
  from getUserResponse_fresh[OF f, of env] run show ?thesis by simp
next
  case False
  let ?w2 = "logE (DB SelectUser) (logE (UserLoad u) w)"
  note eq = run[unfolded getUserResponse_not_fresh[OF False]]
  show ?thesis
  proof (cases "selectUser env (dbConn w) u")
    case (Inl e)
    with eq show ?thesis by (auto simp: Let_def logE_def)
  next
    case (Inr model)
    obtain r3 w3 where fu: "fillUserResponse env ?w2 model = (r3, w3)"
      by (cases "fillUserResponse env ?w2 model")
    from fillUserResponse_state[OF fu] have "userCache w3 = userCache w" by (simp add: logE_def)
    with eq Inr fu show ?thesis by (cases r3) (auto simp: Let_def)
  qed
qed

lemma spec_fresh_later:
  "\<not> spec_fresh cache u now \<Longrightarrow> now \<le> now' \<Longrightarrow> \<not> spec_fresh cache u now'"
  by (auto simp: spec_fresh_def split: option.splits)

lemma selectUser_absent:
  "fault env SelectUser = None \<Longrightarrow> \<forall>m \<in> set (users d). um_ID m \<noteq> u
   \<Longrightarrow> selectUser env d u = Inl ErrNoRows"
proof -
  assume a: "fault env SelectUser = None" and b: "\<forall>m \<in> set (users d). um_ID m \<noteq> u"
  from b have "filter (\<lambda>x. um_ID x = u) (users d) = []" by (simp add: filter_empty_conv)
  with a show ?thesis by (simp add: selectUser_def)
qed

text \<open>
  When the icon file is absent and the fallback image cannot be read, \<^verbatim>\<open>fillUserResponse\<close>
  reports no error: the profile carries the hash of the empty image. For
  \<^verbatim>\<open>getUserResponse\<close> this is a successful assembly.
\<close>

lemma fillUserResponse_fallback_error_dropped:
  assumes "selectTheme env (dbConn w) (um_ID m) = Inr t" and "um_IconHash m = None"
    and "Stat env (um_ID m) = StatNotExist" and "ReadFallbackImage env = Inl err"
  shows "fst (fillUserResponse env w m) = Inr (userOf m t (Sum256hex env []))"
  using assms by (simp add: fillUserResponse_def Let_def logE_def)

text \<open>
  With no fresh entry for the user, an error of the row query, or one that
  \<^verbatim>\<open>fillUserResponse\<close> reports, is the result of \<^verbatim>\<open>getUserResponse\<close> as it is; a user
  without a row gives \<^verbatim>\<open>sql.ErrNoRows\<close>. Whenever an error is returned the profile cache is
  what it was, so the entry is still not fresh at any later instant and the next call asks
  the source again.
\<close>

lemma getUserResponse_reported_error_not_cached:
  assumes nf: "\<not> spec_fresh (userCache w) u now"
  shows "(\<forall>err. (selectUser env (dbConn w) u = Inl err
                 \<or> (\<exists>model. selectUser env (dbConn w) u = Inr model
                       \<and> fst (fillUserResponse env w model) = Inl err))
            \<longrightarrow> fst (getUserResponse env now w u) = Inl err)
       \<and> (fault env SelectUser = None \<and> (\<forall>m \<in> set (users (dbConn w)). um_ID m \<noteq> u)
            \<longrightarrow> fst (getUserResponse env now w u) = Inl ErrNoRows)
       \<and> (\<forall>err w'. getUserResponse env now w u = (Inl err, w')
            \<longrightarrow> userCache w' = userCache w
              \<and> (\<forall>now'. now \<le> now' \<longrightarrow> \<not> spec_fresh (userCache w') u now'))"
proof (intro conjI allI impI)
  fix err
  assume "selectUser env (dbConn w) u = Inl err
          \<or> (\<exists>model. selectUser env (dbConn w) u = Inr model
                \<and> fst (fillUserResponse env w model) = Inl err)"
  then show "fst (getUserResponse env now w u) = Inl err"
    by (rule getUserResponse_rebuild_fails(1)[OF nf])
next
  assume "fault env SelectUser = None \<and> (\<forall>m \<in> set (users (dbConn w)). um_ID m \<noteq> u)"
  then have "selectUser env (dbConn w) u = Inl ErrNoRows" by (simp add: selectUser_absent)
  then show "fst (getUserResponse env now w u) = Inl ErrNoRows"
    by (intro getUserResponse_rebuild_fails(1)[OF nf] disjI1)
next
  fix err w' assume run: "getUserResponse env now w u = (Inl err, w')"
  then show "userCache w' = userCache w" by (rule getUserResponse_error_keeps_cache)
next
  fix err w' now' assume run: "getUserResponse env now w u = (Inl err, w')" and "now \<le> now'"
  from getUserResponse_error_keeps_cache[OF run] nf \<open>now \<le> now'\<close>
  show "\<not> spec_fresh (userCache w') u now'" by (simp add: spec_fresh_later)
qed

lemma getUserResponse_reported_error_example:
  "\<not> spec_fresh (userCache wCached) 99 5
   \<and> getUserResponse envW 5 wCached 99
       = (Inl ErrNoRows, wCached\<lparr>trace := [UserLoad 99, DB SelectUser]\<rparr>)
   \<and> userCache (wCached\<lparr>trace := [UserLoad 99, DB SelectUser]\<rparr>) = userCache wCached
   \<and> getUserResponse envW 6 (wCached\<lparr>trace := [UserLoad 99, DB SelectUser]\<rparr>) 99
       = (Inl ErrNoRows,
          wCached\<lparr>trace := [UserLoad 99, DB SelectUser, UserLoad 99, DB SelectUser]\<rparr>)"
proof -
  have nf: "\<not> spec_fresh (userCache wCached) 99 5"
    by (simp add: spec_fresh_def wCached_def)
  have run1: "getUserResponse envW 5 wCached 99
       = (Inl ErrNoRows, wCached\<lparr>trace := [UserLoad 99, DB SelectUser]\<rparr>)"
    by (simp add: user_defs fixture_defs)
  have run2: "getUserResponse envW 6 (wCached\<lparr>trace := [UserLoad 99, DB SelectUser]\<rparr>) 99
       = (Inl ErrNoRows,
          wCached\<lparr>trace := [UserLoad 99, DB SelectUser, UserLoad 99, DB SelectUser]\<rparr>)"
    by (simp add: user_defs fixture_defs)
  have absent: "fault envW SelectUser = None \<and> (\<forall>m \<in> set (users (dbConn wCached)). um_ID m \<noteq> 99)"
    by (simp add: fixture_defs)
  from getUserResponse_reported_error_not_cached[OF nf, of envW] absent run1 run2 nf
  show ?thesis by simp
qed

text \<open>
  When the entry of the user is 1.3 seconds old or older and the rebuild fails with an
  error that is reported, the result is the error, not the cached profile, and the stale
  entry stays in the cache unchanged.
\<close>

lemma getUserResponse_stale_entry_kept_on_reported_error:
  assumes hit: "Load (userCache w) u = Some f"
    and stale: "now - fetchedAt f \<ge> spec_TTL"
    and fail: "selectUser env (dbConn w) u = Inl err
               \<or> (\<exists>model. selectUser env (dbConn w) u = Inr model
                     \<and> fst (fillUserResponse env w model) = Inl err)"
  shows "fst (getUserResponse env now w u) = Inl err
       \<and> fst (getUserResponse env now w u) \<noteq> Inr (user f)
       \<and> userCache (snd (getUserResponse env now w u)) = userCache w
       \<and> Load (userCache (snd (getUserResponse env now w u))) u = Some f"
proof -
  from hit stale have nf: "\<not> spec_fresh (userCache w) u now"
    by (simp add: spec_fresh_def Load_def)
  from getUserResponse_rebuild_fails(1,2)[OF nf fail] hit show ?thesis by simp
qed

lemma getUserResponse_stale_entry_example:
  "Load (userCache wCached) 7 = Some \<lparr>user = userOld, fetchedAt = 0\<rparr>
   \<and> 2000000000 - fetchedAt \<lparr>user = userOld, fetchedAt = 0\<rparr> \<ge> spec_TTL
   \<and> fst (getUserResponse envThemeDown 2000000000 wCached 7) = Inl (ErrOther ''connection lost'')
   \<and> Load (userCache (snd (getUserResponse envThemeDown 2000000000 wCached 7))) 7
       = Some \<lparr>user = userOld, fetchedAt = 0\<rparr>"
proof -
  have hit: "Load (userCache wCached) 7 = Some \<lparr>user = userOld, fetchedAt = 0\<rparr>"
    by (simp add: Load_def wCached_def)
  have stale: "2000000000 - fetchedAt \<lparr>user = userOld, fetchedAt = 0\<rparr> \<ge> spec_TTL"
    by (simp add: spec_TTL_def)
  have sel: "selectUser envThemeDown (dbConn wCached) 7 = Inr (hd (users dbW))"
    by (simp add: selectUser_def envThemeDown_def fixture_defs)
  have fill: "fst (fillUserResponse envThemeDown wCached (hd (users dbW)))
                = Inl (ErrOther ''connection lost'')"
    by (simp add: fillUserResponse_def selectTheme_def Let_def logE_def envThemeDown_def fixture_defs)
  from sel fill
  have fail: "selectUser envThemeDown (dbConn wCached) 7 = Inl (ErrOther ''connection lost'')
              \<or> (\<exists>model. selectUser envThemeDown (dbConn wCached) 7 = Inr model
                    \<and> fst (fillUserResponse envThemeDown wCached model)
                        = Inl (ErrOther ''connection lost''))"
    by blast
  from getUserResponse_stale_entry_kept_on_reported_error[OF hit stale fail] hit stale
  show ?thesis by simp
qed

text \<open>
  C6 (a failed assembly is returned as an error and never cached) fails on the code. User
  8 has no icon hash in the row and no icon file, and the fallback image cannot be read.
  \<^verbatim>\<open>fillUserResponse\<close> assigns the error of that read and never looks at it, where the
  two neighbouring branches return theirs; \<^verbatim>\<open>getUserResponse\<close> therefore answers with a
  profile that carries the hash of the empty image, and stores it. The next call within
  the freshness window is served this profile from the cache.
\<close>

theorem C6_fallback_read_error_dropped_and_cached:
  "ReadFallbackImage envNoFallback
     = Inl (ErrOther ''open ../img/NoImage.jpg: no such file or directory'')
   \<and> \<not> spec_fresh (userCache wEmpty) 8 5
   \<and> getUserResponse envNoFallback 5 wEmpty 8
       = (Inr (viewerUser\<lparr>user_IconHash := ''sha256:''\<rparr>),
          wEmpty\<lparr>userCache :=
                   [8 \<mapsto> \<lparr>user = viewerUser\<lparr>user_IconHash := ''sha256:''\<rparr>, fetchedAt = 5\<rparr>],
                 trace := [UserLoad 8, DB SelectUser, DB SelectTheme, FS StatIcon,
                           FS ReadFallback, UserStore 8]\<rparr>)
   \<and> getUserResponse envNoFallback 6 (snd (getUserResponse envNoFallback 5 wEmpty 8)) 8
       = (Inr (viewerUser\<lparr>user_IconHash := ''sha256:''\<rparr>),
          wEmpty\<lparr>userCache :=
                   [8 \<mapsto> \<lparr>user = viewerUser\<lparr>user_IconHash := ''sha256:''\<rparr>, fetchedAt = 5\<rparr>],
                 trace := [UserLoad 8, DB SelectUser, DB SelectTheme, FS StatIcon,
                           FS ReadFallback, UserStore 8, UserLoad 8]\<rparr>)"
  by (simp add: user_defs fixture_defs viewerUser_def envNoFallback_def wEmpty_def
      spec_fresh_def)

text \<open>
  C9 (after a failed rebuild the error is returned and the stale entry is left as it was)
  fails on the code at the same place. The profile of user 8 was cached at instant 0; at
  two seconds the entry is stale, the rebuild cannot read the fallback image, and
  \<^verbatim>\<open>getUserResponse\<close> returns a profile with the hash of the empty image and overwrites
  the stale entry with it.
\<close>

theorem C9_stale_entry_overwritten_on_dropped_error:
  "ReadFallbackImage envNoFallback
     = Inl (ErrOther ''open ../img/NoImage.jpg: no such file or directory'')
   \<and> Load (userCache wStale8) 8 = Some \<lparr>user = viewerUser, fetchedAt = 0\<rparr>
   \<and> 2000000000 - fetchedAt \<lparr>user = viewerUser, fetchedAt = 0\<rparr> \<ge> spec_TTL
   \<and> getUserResponse envNoFallback 2000000000 wStale8 8
       = (Inr (viewerUser\<lparr>user_IconHash := ''sha256:''\<rparr>),
          wStale8\<lparr>userCache :=
                    [8 \<mapsto> \<lparr>user = viewerUser\<lparr>user_IconHash := ''sha256:''\<rparr>,
                          fetchedAt = 2000000000\<rparr>],
                  trace := [UserLoad 8, DB SelectUser, DB SelectTheme, FS StatIcon,
                            FS ReadFallback, UserStore 8]\<rparr>)"
  by (simp add: user_defs fixture_defs viewerUser_def envNoFallback_def wStale8_def wEmpty_def
      spec_TTL_def)

subsection \<open>The moderation word cache: reading\<close>

lemmas ngwords_defs = getNgwords_def verifyUserSession_def selectNgWords_def logE_def Load_def
  Store_def Delete_def Let_def Unix_def Second_def Millisecond_def

lemma verifyUserSession_valid:
  "sessionValid now s uid \<Longrightarrow> verifyUserSession now s = None"
  by (auto simp: sessionValid_def verifyUserSession_def split: option.splits)

lemma verifyUserSession_None:
  "verifyUserSession now s = None \<Longrightarrow> \<exists>uid. sessionValid now s uid"
  by (auto simp: sessionValid_def verifyUserSession_def split: option.splits if_splits)


lemma selectNgWords_Inr:
  "selectNgWords env d L = Inr ws \<longleftrightarrow>
     fault env SelectNgWords = None \<and>
     ws = rev (sort_key ng_CreatedAt (filter (\<lambda>w. ng_LivestreamID w = L) (ng_words d)))"
  by (auto simp: selectNgWords_def split: option.splits)

lemma selectNgWords_mset:
  "selectNgWords env d L = Inr ws
   \<Longrightarrow> mset ws = mset (filter (\<lambda>w. ng_LivestreamID w = L) (ng_words d))"
  by (simp add: selectNgWords_Inr)


lemma getNgwords_owner:
  assumes "sessionValid now (sess r) uid" and "livestream_id r = Some L"
    and "getLivestream env L = Inr ls" and "ls_UserID ls = uid"
  shows "getNgwords env now w r =
     (let w2 = logE (NgWordsLoad L) (logE (GetLivestream L) w) in
      case Load (ngWordsCache w) L of
        Some ngWords \<Rightarrow> (JSON StatusOK ngWords, w2)
      | None \<Rightarrow>
          (let w3 = logE (DB SelectNgWords) w2 in
           case selectNgWords env (dbConn w) L of
             Inl err \<Rightarrow>
               (if err = ErrNoRows then (JSON StatusOK [], w3)
                else (HTTPError StatusInternalServerError
                        (''failed to get NG words: '' @ Error err), w3))
           | Inr ngWords \<Rightarrow>
               (JSON StatusOK ngWords,
                logE (NgWordsStore L)
                  (w3\<lparr>ngWordsCache := Store (ngWordsCache w) L ngWords\<rparr>))))"
proof -
  from assms(1) have v: "verifyUserSession now (sess r) = (None :: NGWord list response option)"
    and u: "USERID (sess r) = Some uid"
    by (simp_all add: verifyUserSession_valid sessionValid_def)
  show ?thesis
    using assms(2-4)
    by (simp add: getNgwords_def v u Let_def logE_def split: option.splits sum.splits)
qed

lemma getNgwords_not_owner:
  assumes "sessionValid now (sess r) uid" and "livestream_id r = Some L"
    and "(\<exists>err. getLivestream env L = Inl err)
         \<or> (\<exists>ls. getLivestream env L = Inr ls \<and> ls_UserID ls \<noteq> uid)"
  shows "getNgwords env now w r = (JSON StatusOK [], logE (GetLivestream L) w)"
proof -
  from assms(1) have v: "verifyUserSession now (sess r) = (None :: NGWord list response option)"
    and u: "USERID (sess r) = Some uid"
    by (simp_all add: verifyUserSession_valid sessionValid_def)
  show ?thesis
    using assms(2-3)
    by (auto simp: getNgwords_def v u Let_def)
qed



text \<open>
  C8. For an authenticated request whose stream cannot be fetched or belongs to another
  user, the response is the empty list with status 200 and the only effect is the lookup
  of the stream: the cache is neither read nor written. A non-empty list is only ever the
  response to the stream's owner.
\<close>

theorem C8_getNgwords_only_for_owner:
  assumes "sessionValid now (sess r) uid" and "livestream_id r = Some L"
    and run: "getNgwords env now w r = (resp, w')"
  shows "((\<exists>err. getLivestream env L = Inl err)
          \<or> (\<exists>ls. getLivestream env L = Inr ls \<and> ls_UserID ls \<noteq> uid)
          \<longrightarrow> resp = JSON StatusOK [] \<and> ngWordsCache w' = ngWordsCache w
            \<and> trace w' = trace w @ [GetLivestream L])
       \<and> (\<forall>ws. resp = JSON StatusOK ws \<and> ws \<noteq> []
            \<longrightarrow> (\<exists>ls. getLivestream env L = Inr ls \<and> ls_UserID ls = uid))"
proof -
  have a: "resp = JSON StatusOK [] \<and> ngWordsCache w' = ngWordsCache w
            \<and> trace w' = trace w @ [GetLivestream L]"
    if "(\<exists>err. getLivestream env L = Inl err)
          \<or> (\<exists>ls. getLivestream env L = Inr ls \<and> ls_UserID ls \<noteq> uid)"
    using run[unfolded getNgwords_not_owner[OF assms(1,2) that]] by (auto simp: logE_def)
  have b: "\<exists>ls. getLivestream env L = Inr ls \<and> ls_UserID ls = uid"
    if "resp = JSON StatusOK ws \<and> ws \<noteq> []" for ws
  proof (rule ccontr)
    assume "\<not> (\<exists>ls. getLivestream env L = Inr ls \<and> ls_UserID ls = uid)"
    then have "(\<exists>err. getLivestream env L = Inl err)
          \<or> (\<exists>ls. getLivestream env L = Inr ls \<and> ls_UserID ls \<noteq> uid)"
      by (cases "getLivestream env L") auto
    from a[OF this] that show False by simp
  qed
  from a b show ?thesis by blast
qed

theorem C8_witness:
  "sessionValid 0 viewerSession 8
   \<and> getLivestream envW 42 = Inr \<lparr>ls_ID = 42, ls_UserID = 7\<rparr>
   \<and> getNgwords envW 0 (wEmpty\<lparr>ngWordsCache := [42 \<mapsto> ng_words dbW]\<rparr>)
        \<lparr>sess = viewerSession, livestream_id = Some 42, body = DecodeError\<rparr>
       = (JSON StatusOK [],
          wEmpty\<lparr>ngWordsCache := [42 \<mapsto> ng_words dbW], trace := [GetLivestream 42]\<rparr>)
   \<and> getLivestream envW 44 = Inl ErrNoRows
   \<and> getNgwords envW 0 wEmpty \<lparr>sess = ownerSession, livestream_id = Some 44, body = DecodeError\<rparr>
       = (JSON StatusOK [], wEmpty\<lparr>trace := [GetLivestream 44]\<rparr>)"
proof -
  let ?r = "\<lparr>sess = viewerSession, livestream_id = Some 42, body = DecodeError\<rparr> :: unit request"
  let ?w = "wEmpty\<lparr>ngWordsCache := [42 \<mapsto> ng_words dbW]\<rparr>"
  have v: "sessionValid 0 (sess ?r) 8"
    by (simp add: sessionValid_def viewerSession_def Unix_def Second_def Millisecond_def)
  have l: "livestream_id ?r = Some 42" by simp
  have g: "getLivestream envW 42 = Inr \<lparr>ls_ID = 42, ls_UserID = 7\<rparr>"
    and g44: "getLivestream envW 44 = Inl ErrNoRows" by (simp_all add: envW_def)
  have run: "getNgwords envW 0 ?w ?r = (JSON StatusOK [], ?w\<lparr>trace := [GetLivestream 42]\<rparr>)"
    by (simp add: ngwords_defs wEmpty_def viewerSession_def fixture_defs)
  have run2: "getNgwords envW 0 wEmpty \<lparr>sess = ownerSession, livestream_id = Some 44, body = DecodeError\<rparr>
       = (JSON StatusOK [], wEmpty\<lparr>trace := [GetLivestream 44]\<rparr>)"
    by (simp add: ngwords_defs wEmpty_def ownerSession_def fixture_defs)
  from C8_getNgwords_only_for_owner[OF v l run] v g g44 run run2
  show ?thesis by simp
qed

subsection \<open>The moderation word cache: the moderation write\<close>

lemmas moderate_defs = moderateHandler_def moderateHandler_commit_def verifyUserSession_def
  insertNgWord_def deleteLivecomments_def Rollback_def logE_def Load_def Store_def Delete_def
  Let_def Unix_def Second_def Millisecond_def

lemma moderateHandler_commit_not_owner:
  assumes "sessionValid now (sess r) uid" and "livestream_id r = Some L"
    and "getLivestream env L = Inr ls" and "ls_UserID ls \<noteq> uid"
  shows "moderateHandler_commit env now w r =
     (case body r of
        DecodeError \<Rightarrow>
          (Inl (HTTPError StatusBadRequest ''failed to decode the request body as json''), w)
      | Decoded req \<Rightarrow>
          (case fault env Begin of
             Some err \<Rightarrow>
               (Inl (HTTPError StatusInternalServerError
                       (''failed to begin transaction: '' @ Error err)), logE (DB Begin) w)
           | None \<Rightarrow>
               (Inl (HTTPError StatusBadRequest
                       ''A streamer can't moderate livestreams that other streamers own''),
                logE (GetLivestream L) (logE (DB Begin) w))))"
proof -
  from assms(1) have v: "verifyUserSession now (sess r) = (None :: int response option)"
    and u: "USERID (sess r) = Some uid"
    by (simp_all add: verifyUserSession_valid sessionValid_def)
  show ?thesis
    using assms(2-4)
    by (simp add: moderateHandler_commit_def v u Let_def split: decoded.splits option.splits)
qed

lemma moderateHandler_commit_owner:
  assumes "sessionValid now (sess r) uid" and "livestream_id r = Some L"
    and "body r = Decoded (Some req)"
    and "getLivestream env L = Inr ls" and "ls_UserID ls = uid"
    and "\<forall>op. fault env op = None"
  shows "moderateHandler_commit env now w r =
     (Inr (L, ng_words_next_id (dbConn w)),
      w\<lparr>dbConn :=
          deleteLivecomments env
            ((dbConn w)\<lparr>ng_words :=
                 ng_words (dbConn w) @
                 [\<lparr>ng_ID = ng_words_next_id (dbConn w), ng_UserID = uid, ng_LivestreamID = L,
                   ng_Word = req_NGWord req, ng_CreatedAt = Unix now\<rparr>],
               ng_words_next_id := ng_words_next_id (dbConn w) + 1\<rparr>)
            L (req_NGWord req),
        trace := trace w @ [DB Begin, GetLivestream L, DB InsertNgWord, DB LastInsertId,
                            DB DeleteLivecomments, DB Commit]\<rparr>)"
proof -
  from assms(1) have v: "verifyUserSession now (sess r) = (None :: int response option)"
    and u: "USERID (sess r) = Some uid"
    by (simp_all add: verifyUserSession_valid sessionValid_def)
  show ?thesis
    using assms(2-6)
    by (simp add: moderateHandler_commit_def v u Let_def logE_def insertNgWord_def)
qed


text \<open>
  C10. When an authenticated user moderates a stream that exists and belongs to someone
  else, the tables and both caches are what they were: the only effects are the start of
  the transaction and the lookup of the stream. If the transaction could be started the
  response is a 400 error, and it is the ownership error when the body decoded.
\<close>

theorem C10_moderate_by_non_owner_changes_nothing:
  assumes "sessionValid now (sess r) uid" and "livestream_id r = Some L"
    and "getLivestream env L = Inr ls" and "ls_UserID ls \<noteq> uid"
    and run: "moderateHandler env now w r = (resp, w')"
  shows "dbConn w' = dbConn w \<and> ngWordsCache w' = ngWordsCache w \<and> userCache w' = userCache w
       \<and> (\<exists>evs. trace w' = trace w @ evs \<and> set evs \<subseteq> {DB Begin, GetLivestream L})
       \<and> (fault env Begin = None \<longrightarrow> (\<exists>msg. resp = HTTPError StatusBadRequest msg))
       \<and> (fault env Begin = None \<and> body r \<noteq> DecodeError \<longrightarrow>
            resp = HTTPError StatusBadRequest
                     ''A streamer can't moderate livestreams that other streamers own''
          \<and> trace w' = trace w @ [DB Begin, GetLivestream L])"
  using run
  by (auto simp: moderateHandler_def moderateHandler_commit_not_owner[OF assms(1-4)] logE_def
      split: decoded.splits option.splits)

theorem C10_witness:
  "sessionValid 0 viewerSession 8
   \<and> getLivestream envW 42 = Inr \<lparr>ls_ID = 42, ls_UserID = 7\<rparr>
   \<and> moderateHandler envW 0 wWarm (moderateScam viewerSession)
       = (HTTPError StatusBadRequest
            ''A streamer can't moderate livestreams that other streamers own'',
          wWarm\<lparr>trace := [DB Begin, GetLivestream 42]\<rparr>)"
proof -
  have v: "sessionValid 0 (sess (moderateScam viewerSession)) 8"
    by (simp add: sessionValid_def viewerSession_def moderateScam_def Unix_def Second_def
        Millisecond_def)
  have l: "livestream_id (moderateScam viewerSession) = Some 42" by (simp add: moderateScam_def)
  have g: "getLivestream envW 42 = Inr \<lparr>ls_ID = 42, ls_UserID = 7\<rparr>" by (simp add: envW_def)
  have o: "ls_UserID \<lparr>ls_ID = 42, ls_UserID = 7\<rparr> \<noteq> 8" by simp
  have run: "moderateHandler envW 0 wWarm (moderateScam viewerSession)
       = (HTTPError StatusBadRequest
            ''A streamer can't moderate livestreams that other streamers own'',
          wWarm\<lparr>trace := [DB Begin, GetLivestream 42]\<rparr>)"
    by (simp add: moderate_defs moderateScam_def viewerSession_def wWarm_def wEmpty_def envW_def)
  from C10_moderate_by_non_owner_changes_nothing[OF v l g o run] v g run
  show ?thesis using v by (simp add: sessionValid_def viewerSession_def moderateScam_def)
qed

text \<open>
  The moderation write and the listing endpoint. The owner bans a word and no statement
  fails. The effects are, in this order: begin,
  lookup of the stream, insert of the word, its id, the delete of the matching comments,
  the commit, a sleep of 500 ms, and only then the removal of the stream's cache entry.
  In the state at the commit (\<open>wc\<close>) the tables already hold the word and the cache is
  untouched, so a listing request of the owner that runs before the sleep is over is
  answered from the entry cached before the write. In the final state the entry is gone
  and the same request is answered from the tables: exactly the stream's rows, the new
  word among them. The model is sequential: other requests run between the two states or
  after the second one, not inside a statement.
\<close>

lemma moderateHandler_write_then_delayed_invalidation:
  assumes valid: "sessionValid now (sess r) uid" and lid: "livestream_id r = Some L"
    and body: "body r = Decoded (Some req)"
    and stream: "getLivestream env L = Inr ls" and owner: "ls_UserID ls = uid"
    and nofault: "\<forall>op. fault env op = None"
    and commit: "moderateHandler_commit env now w r = (rc, wc)"
    and run: "moderateHandler env now w r = (resp, w')"
  shows "trace w' = trace w @ [DB Begin, GetLivestream L, DB InsertNgWord, DB LastInsertId,
                               DB DeleteLivecomments, DB Commit, Sleep (500 * Millisecond),
                               NgWordsDelete L]
       \<and> resp = JSON StatusCreated (ng_words_next_id (dbConn w))
       \<and> ng_words (dbConn w') =
           ng_words (dbConn w) @
           [\<lparr>ng_ID = ng_words_next_id (dbConn w), ng_UserID = uid, ng_LivestreamID = L,
             ng_Word = req_NGWord req, ng_CreatedAt = Unix now\<rparr>]
       \<and> livecomments (dbConn w') =
           filter (\<lambda>c. \<not> (lc_LivestreamID c = L \<and> sqlLike env (lc_Comment c) (req_NGWord req)))
             (livecomments (dbConn w))
       \<and> dbConn wc = dbConn w' \<and> ngWordsCache wc = ngWordsCache w
       \<and> trace wc = trace w @ [DB Begin, GetLivestream L, DB InsertNgWord, DB LastInsertId,
                                DB DeleteLivecomments, DB Commit]
       \<and> ngWordsCache w' = Delete (ngWordsCache w) L
       \<and> (\<forall>now1 r1 ws0.
             sessionValid now1 (sess r1) uid \<and> livestream_id r1 = Some L
             \<and> Load (ngWordsCache w) L = Some ws0
             \<longrightarrow> fst (getNgwords env now1 wc r1) = JSON StatusOK ws0)
       \<and> (\<forall>now1 r1.
             sessionValid now1 (sess r1) uid \<and> livestream_id r1 = Some L
             \<longrightarrow> (\<exists>ws. fst (getNgwords env now1 w' r1) = JSON StatusOK ws
                     \<and> mset ws = mset (filter (\<lambda>x. ng_LivestreamID x = L) (ng_words (dbConn w')))
                     \<and> (\<exists>x \<in> set ws. ng_Word x = req_NGWord req)))"
proof -
  let ?row = "\<lparr>ng_ID = ng_words_next_id (dbConn w), ng_UserID = uid, ng_LivestreamID = L,
               ng_Word = req_NGWord req, ng_CreatedAt = Unix now\<rparr>"
  let ?d = "deleteLivecomments env
              ((dbConn w)\<lparr>ng_words := ng_words (dbConn w) @ [?row],
                          ng_words_next_id := ng_words_next_id (dbConn w) + 1\<rparr>)
              L (req_NGWord req)"
  let ?tc = "trace w @ [DB Begin, GetLivestream L, DB InsertNgWord, DB LastInsertId,
                        DB DeleteLivecomments, DB Commit]"
  note c = moderateHandler_commit_owner[OF valid lid body stream owner nofault, of w]
  from commit c have wc: "wc = w\<lparr>dbConn := ?d, trace := ?tc\<rparr>" by simp
  from run c have resp: "resp = JSON StatusCreated (ng_words_next_id (dbConn w))"
    and w': "w' = w\<lparr>dbConn := ?d, ngWordsCache := Delete (ngWordsCache w) L,
                    trace := ?tc @ [Sleep (500 * Millisecond), NgWordsDelete L]\<rparr>"
    by (simp_all add: moderateHandler_def Let_def logE_def)
  have words: "ng_words ?d = ng_words (dbConn w) @ [?row]"
    by (simp add: deleteLivecomments_def)
  have comments: "livecomments ?d =
           filter (\<lambda>c. \<not> (lc_LivestreamID c = L \<and> sqlLike env (lc_Comment c) (req_NGWord req)))
             (livecomments (dbConn w))"
    by (simp add: deleteLivecomments_def)
  have before: "fst (getNgwords env now1 wc r1) = JSON StatusOK ws0"
    if "sessionValid now1 (sess r1) uid \<and> livestream_id r1 = Some L
        \<and> Load (ngWordsCache w) L = Some ws0" for now1 r1 ws0
  proof -
    from that have a: "sessionValid now1 (sess r1) uid" "livestream_id r1 = Some L"
      and hit: "Load (ngWordsCache w) L = Some ws0" by simp_all
    from hit have "Load (ngWordsCache wc) L = Some ws0" by (simp add: wc)
    then show ?thesis
      by (simp add: getNgwords_owner[OF a stream owner] Let_def)
  qed
  have after: "\<exists>ws. fst (getNgwords env now1 w' r1) = JSON StatusOK ws
                     \<and> mset ws = mset (filter (\<lambda>x. ng_LivestreamID x = L) (ng_words (dbConn w')))
                     \<and> (\<exists>x \<in> set ws. ng_Word x = req_NGWord req)"
    if "sessionValid now1 (sess r1) uid \<and> livestream_id r1 = Some L" for now1 r1
  proof -
    from that have a: "sessionValid now1 (sess r1) uid" "livestream_id r1 = Some L" by simp_all
    define ws where "ws = rev (sort_key ng_CreatedAt
                         (filter (\<lambda>x. ng_LivestreamID x = L) (ng_words (dbConn w'))))"
    from nofault have sel: "selectNgWords env (dbConn w') L = Inr ws"
      by (simp add: selectNgWords_Inr ws_def)
    have miss: "Load (ngWordsCache w') L = None" by (simp add: w' Load_def Delete_def)
    from miss sel have r: "fst (getNgwords env now1 w' r1) = JSON StatusOK ws"
      by (simp add: getNgwords_owner[OF a stream owner] Let_def)
    have m: "mset ws = mset (filter (\<lambda>x. ng_LivestreamID x = L) (ng_words (dbConn w')))"
      by (rule selectNgWords_mset[OF sel])
    have "?row \<in> set (filter (\<lambda>x. ng_LivestreamID x = L) (ng_words (dbConn w')))"
      by (simp add: w' words)
    then have "?row \<in># mset ws" by (simp only: m set_mset_mset)
    then have "?row \<in> set ws" by simp
    then have "\<exists>x \<in> set ws. ng_Word x = req_NGWord req" by (intro bexI[of _ ?row]) simp_all
    with r m show ?thesis by blast
  qed
  from wc w' resp words comments before after show ?thesis
    by (simp add: logE_def)
qed

lemma moderateHandler_write_example:
  "sessionValid 150000000000 ownerSession 7
   \<and> moderateHandler envW 150000000000 wWarm (moderateScam ownerSession)
       = (JSON StatusCreated 2,
          wWarm\<lparr>dbConn :=
                   dbW\<lparr>ng_words := ng_words dbW @
                          [\<lparr>ng_ID = 2, ng_UserID = 7, ng_LivestreamID = 42, ng_Word = ''scam'',
                            ng_CreatedAt = 150\<rparr>],
                       livecomments := [hd (livecomments dbW)],
                       ng_words_next_id := 3\<rparr>,
                ngWordsCache := Map.empty,
                trace := [DB Begin, GetLivestream 42, DB InsertNgWord, DB LastInsertId,
                          DB DeleteLivecomments, DB Commit, Sleep 500000000, NgWordsDelete 42]\<rparr>)
   \<and> fst (getNgwords envW 150100000000
             (snd (moderateHandler_commit envW 150000000000 wWarm (moderateScam ownerSession)))
             \<lparr>sess = ownerSession, livestream_id = Some 42, body = DecodeError\<rparr>)
       = JSON StatusOK (ng_words dbW)
   \<and> fst (getNgwords envW 150600000000
             (snd (moderateHandler envW 150000000000 wWarm (moderateScam ownerSession)))
             \<lparr>sess = ownerSession, livestream_id = Some 42, body = DecodeError\<rparr>)
       = JSON StatusOK
           [\<lparr>ng_ID = 2, ng_UserID = 7, ng_LivestreamID = 42, ng_Word = ''scam'', ng_CreatedAt = 150\<rparr>,
            \<lparr>ng_ID = 1, ng_UserID = 7, ng_LivestreamID = 42, ng_Word = ''spam'', ng_CreatedAt = 100\<rparr>]"
proof -
  let ?r = "moderateScam ownerSession"
  let ?r1 = "\<lparr>sess = ownerSession, livestream_id = Some 42, body = DecodeError\<rparr> :: unit request"
  let ?d = "dbW\<lparr>ng_words := ng_words dbW @
                          [\<lparr>ng_ID = 2, ng_UserID = 7, ng_LivestreamID = 42, ng_Word = ''scam'',
                            ng_CreatedAt = 150\<rparr>],
                       livecomments := [hd (livecomments dbW)],
                       ng_words_next_id := 3\<rparr>"
  let ?tc = "[DB Begin, GetLivestream 42, DB InsertNgWord, DB LastInsertId,
              DB DeleteLivecomments, DB Commit]"
  have v: "sessionValid 150000000000 (sess ?r) 7"
    and v1: "sessionValid 150100000000 (sess ?r1) 7"
    and v2: "sessionValid 150600000000 (sess ?r1) 7"
    by (simp_all add: sessionValid_def ownerSession_def moderateScam_def Unix_def Second_def
        Millisecond_def)
  have l: "livestream_id ?r = Some 42" and b: "body ?r = Decoded (Some \<lparr>req_NGWord = ''scam''\<rparr>)"
    by (simp_all add: moderateScam_def)
  have g: "getLivestream envW 42 = Inr \<lparr>ls_ID = 42, ls_UserID = 7\<rparr>" by (simp add: envW_def)
  have o: "ls_UserID \<lparr>ls_ID = 42, ls_UserID = 7\<rparr> = 7" by simp
  have nf: "\<forall>op. fault envW op = None" by (simp add: envW_def)
  have commit: "moderateHandler_commit envW 150000000000 wWarm ?r
                  = (Inr (42, 2), wWarm\<lparr>dbConn := ?d, trace := ?tc\<rparr>)"
    by (simp add: moderate_defs moderateScam_def ownerSession_def wWarm_def wEmpty_def
        envW_def dbW_def)
  have run: "moderateHandler envW 150000000000 wWarm ?r
       = (JSON StatusCreated 2,
          wWarm\<lparr>dbConn := ?d, ngWordsCache := Map.empty,
                trace := ?tc @ [Sleep 500000000, NgWordsDelete 42]\<rparr>)"
    unfolding moderateHandler_def commit
    by (simp add: Let_def logE_def Delete_def Millisecond_def wWarm_def wEmpty_def)
  have hit: "Load (ngWordsCache wWarm) 42 = Some (ng_words dbW)"
    by (simp add: Load_def wWarm_def)
  note mw = moderateHandler_write_then_delayed_invalidation[OF v l b g o nf commit run]
  note mw_before = mw[THEN conjunct2, THEN conjunct2, THEN conjunct2, THEN conjunct2,
      THEN conjunct2, THEN conjunct2, THEN conjunct2, THEN conjunct2, THEN conjunct1,
      rule_format, of 150100000000 ?r1 "ng_words dbW"]
  have before: "fst (getNgwords envW 150100000000 (wWarm\<lparr>dbConn := ?d, trace := ?tc\<rparr>) ?r1)
                  = JSON StatusOK (ng_words dbW)"
    using v1 hit by (intro mw_before) simp
  have after: "fst (getNgwords envW 150600000000
                      (wWarm\<lparr>dbConn := ?d, ngWordsCache := Map.empty,
                             trace := ?tc @ [Sleep 500000000, NgWordsDelete 42]\<rparr>) ?r1)
       = JSON StatusOK
           [\<lparr>ng_ID = 2, ng_UserID = 7, ng_LivestreamID = 42, ng_Word = ''scam'', ng_CreatedAt = 150\<rparr>,
            \<lparr>ng_ID = 1, ng_UserID = 7, ng_LivestreamID = 42, ng_Word = ''spam'', ng_CreatedAt = 100\<rparr>]"
    by (simp add: ngwords_defs ownerSession_def wWarm_def wEmpty_def envW_def dbW_def)
  have v0: "sessionValid 150000000000 ownerSession 7"
    using v by (simp add: moderateScam_def)
  from v0 before after show ?thesis
    by (simp add: commit run)
qed

subsection \<open>The moderation word cache: posting a comment\<close>

lemma Contains_sublist: "Contains s substr \<longleftrightarrow> sublist substr s"
  by (induction s) (auto simp: sublist_Cons_right)

lemma spamHit_iff:
  "spamHit comment ngwords \<longleftrightarrow> (\<exists>x \<in> set ngwords. sublist (ng_Word x) comment)"
  by (induction ngwords) (auto simp: Contains_sublist)

lemma selectUser_cong:
  "users d = users d' \<Longrightarrow> selectUser env d u = selectUser env d' u"
  by (simp add: selectUser_def split: option.splits)

lemma getUserResponse_fst_cong:
  assumes c: "userCache w = userCache v"
    and u: "users (dbConn w) = users (dbConn v)"
    and t: "themes (dbConn w) = themes (dbConn v)"
  shows "fst (getUserResponse env now w uid) = fst (getUserResponse env now v uid)"
proof (cases "spec_fresh (userCache w) uid now")
  case True
  then obtain f where f: "Load (userCache w) uid = Some f" "now - fetchedAt f < spec_TTL"
    by (auto simp: spec_fresh_def Load_def split: option.splits)
  from f c have f': "Load (userCache v) uid = Some f" by (simp add: Load_def)
  show ?thesis
    by (simp add: getUserResponse_fresh[OF f] getUserResponse_fresh[OF f' f(2)])
next
  case False
  with c have False': "\<not> spec_fresh (userCache v) uid now" by simp
  let ?w2 = "logE (DB SelectUser) (logE (UserLoad uid) w)"
  let ?v2 = "logE (DB SelectUser) (logE (UserLoad uid) v)"
  have sel: "selectUser env (dbConn w) uid = selectUser env (dbConn v) uid"
    by (rule selectUser_cong[OF u])
  show ?thesis
  proof (cases "selectUser env (dbConn v) uid")
    case (Inl err)
    with sel show ?thesis
      by (simp add: getUserResponse_not_fresh[OF False] getUserResponse_not_fresh[OF False']
          Let_def)
  next
    case (Inr model)
    have fc: "fst (fillUserResponse env ?w2 model) = fst (fillUserResponse env ?v2 model)"
      by (rule fillUserResponse_fst_cong) (simp add: logE_def t)
    obtain a w3 where fw: "fillUserResponse env ?w2 model = (a, w3)"
      by (cases "fillUserResponse env ?w2 model")
    obtain b v3 where fv: "fillUserResponse env ?v2 model = (b, v3)"
      by (cases "fillUserResponse env ?v2 model")
    from fc fw fv have ab: "a = b" by simp
    from sel Inr fw fv ab show ?thesis
      by (cases b)
         (simp_all add: getUserResponse_not_fresh[OF False] getUserResponse_not_fresh[OF False']
          Let_def)
  qed
qed

lemma fillLivecommentResponse_fst_cong:
  assumes c: "userCache w = userCache v"
    and u: "users (dbConn w) = users (dbConn v)"
    and t: "themes (dbConn w) = themes (dbConn v)"
  shows "fst (fillLivecommentResponse env now w row cached)
       = fst (fillLivecommentResponse env now v row cached)"
proof -
  obtain a w1 where gw: "getUserResponse env now w (lc_UserID row) = (a, w1)"
    by (cases "getUserResponse env now w (lc_UserID row)")
  obtain b v1 where gv: "getUserResponse env now v (lc_UserID row) = (b, v1)"
    by (cases "getUserResponse env now v (lc_UserID row)")
  from getUserResponse_fst_cong[OF c u t, of env now "lc_UserID row"] gw gv
  have ab: "a = b" by simp
  show ?thesis
    by (cases b)
       (simp_all add: fillLivecommentResponse_def gw gv ab Let_def
        split: option.splits sum.splits prod.splits)
qed

lemma getUserResponse_state:
  assumes run: "getUserResponse env now w u = (res, w')"
  shows "dbConn w' = dbConn w \<and> ngWordsCache w' = ngWordsCache w"
proof (cases "spec_fresh (userCache w) u now")
  case True
  then obtain f where f: "Load (userCache w) u = Some f" "now - fetchedAt f < spec_TTL"
    by (auto simp: spec_fresh_def Load_def split: option.splits)
  from getUserResponse_fresh[OF f, of env] run show ?thesis by (auto simp: logE_def)
next
  case False
  let ?w2 = "logE (DB SelectUser) (logE (UserLoad u) w)"
  note eq = run[unfolded getUserResponse_not_fresh[OF False]]
  show ?thesis
  proof (cases "selectUser env (dbConn w) u")
    case (Inl e)
    with eq show ?thesis by (auto simp: Let_def logE_def)
  next
    case (Inr model)
    obtain r3 w3 where fu: "fillUserResponse env ?w2 model = (r3, w3)"
      by (cases "fillUserResponse env ?w2 model")
    from fillUserResponse_state[OF fu]
    have "dbConn w3 = dbConn w" "ngWordsCache w3 = ngWordsCache w" by (simp_all add: logE_def)
    with eq Inr fu show ?thesis by (cases r3) (auto simp: Let_def logE_def)
  qed
qed

lemma fillLivecommentResponse_state:
  assumes run: "fillLivecommentResponse env now w row cached = (res, w')"
  shows "dbConn w' = dbConn w \<and> ngWordsCache w' = ngWordsCache w"
proof -
  obtain a w1 where g: "getUserResponse env now w (lc_UserID row) = (a, w1)"
    by (cases "getUserResponse env now w (lc_UserID row)")
  from getUserResponse_state[OF g]
  have s1: "dbConn w1 = dbConn w" "ngWordsCache w1 = ngWordsCache w" by simp_all
  from run g s1 show ?thesis
    by (cases a)
       (auto simp: fillLivecommentResponse_def Let_def logE_def
        split: option.splits sum.splits)
qed

lemma fillLivecommentResponse_Inr:
  assumes run: "fillLivecommentResponse env now w row cached = (Inr lc, w')"
  shows "c_ID lc = lc_ID row \<and> c_Comment lc = lc_Comment row \<and> c_Tip lc = lc_Tip row
       \<and> c_CreatedAt lc = lc_CreatedAt row"
proof -
  obtain a w1 where g: "getUserResponse env now w (lc_UserID row) = (a, w1)"
    by (cases "getUserResponse env now w (lc_UserID row)")
  from run g show ?thesis
    by (cases a)
       (auto simp: fillLivecommentResponse_def Let_def logE_def
        split: option.splits sum.splits)
qed


lemmas post_defs = postLivecommentHandler_def Let_def logE_def insertLivecomment_def
  Rollback_def

lemma postLivecommentHandler_rejects:
  assumes valid: "sessionValid now (sess r) uid" and lid: "livestream_id r = Some L"
    and body: "body r = Decoded (Some req)" and beg: "fault env Begin = None"
    and stream: "getLivestream env L = Inr ls"
    and consulted: "Load (ngWordsCache w) (ls_UserID ls) = Some ws
                    \<or> (Load (ngWordsCache w) (ls_UserID ls) = None
                        \<and> selectNgWords env (dbConn w) (ls_ID ls) = Inr ws)"
    and spam: "spamHit (req_Comment req) ws"
  shows "fst (postLivecommentHandler env now w r) = HTTPError StatusBadRequest spamMessage"
    and "dbConn (snd (postLivecommentHandler env now w r)) = dbConn w"
proof -
  from valid have v: "verifyUserSession now (sess r) = (None :: 'a Livecomment response option)"
    and u: "USERID (sess r) = Some uid"
    by (simp_all add: verifyUserSession_valid sessionValid_def)
  from consulted
  have "fst (postLivecommentHandler env now w r) = HTTPError StatusBadRequest spamMessage
      \<and> dbConn (snd (postLivecommentHandler env now w r)) = dbConn w"
  proof
    assume hit: "Load (ngWordsCache w) (ls_UserID ls) = Some ws"
    show ?thesis
      by (simp add: post_defs v u lid body beg stream hit spam)
  next
    assume miss: "Load (ngWordsCache w) (ls_UserID ls) = None
                  \<and> selectNgWords env (dbConn w) (ls_ID ls) = Inr ws"
    show ?thesis
      by (simp add: post_defs v u lid body beg stream miss spam)
  qed
  then show "fst (postLivecommentHandler env now w r) = HTTPError StatusBadRequest spamMessage"
    and "dbConn (snd (postLivecommentHandler env now w r)) = dbConn w" by simp_all
qed

lemma postLivecommentHandler_not_rejected:
  assumes valid: "sessionValid now (sess r) uid" and lid: "livestream_id r = Some L"
    and body: "body r = Decoded (Some req)" and beg: "fault env Begin = None"
    and stream: "getLivestream env L = Inr ls"
    and consulted: "Load (ngWordsCache w) (ls_UserID ls) = Some ws
                    \<or> (Load (ngWordsCache w) (ls_UserID ls) = None
                        \<and> selectNgWords env (dbConn w) (ls_ID ls) = Inr ws)"
    and nospam: "\<not> spamHit (req_Comment req) ws"
  shows "fst (postLivecommentHandler env now w r) \<noteq> HTTPError StatusBadRequest spamMessage"
proof -
  from valid have v: "verifyUserSession now (sess r) = (None :: 'a Livecomment response option)"
    and u: "USERID (sess r) = Some uid"
    by (simp_all add: verifyUserSession_valid sessionValid_def)
  from consulted show ?thesis
  proof
    assume hit: "Load (ngWordsCache w) (ls_UserID ls) = Some ws"
    show ?thesis
      by (simp add: post_defs v u lid body beg stream hit nospam status_defs
          split: option.splits prod.splits sum.splits)
  next
    assume miss: "Load (ngWordsCache w) (ls_UserID ls) = None
                  \<and> selectNgWords env (dbConn w) (ls_ID ls) = Inr ws"
    show ?thesis
      by (simp add: post_defs v u lid body beg stream miss nospam status_defs
          split: option.splits prod.splits sum.splits)
  qed
qed


lemma postLivecommentHandler_accepts:
  fixes env :: "'ls env"
  assumes valid: "sessionValid now (sess r) uid" and lid: "livestream_id r = Some L"
    and body: "body r = Decoded (Some req)"
    and stream: "getLivestream env L = Inr ls"
    and consulted: "Load (ngWordsCache w) (ls_UserID ls) = Some ws
                    \<or> (Load (ngWordsCache w) (ls_UserID ls) = None
                        \<and> selectNgWords env (dbConn w) (ls_ID ls) = Inr ws)"
    and nospam: "\<not> spamHit (req_Comment req) ws"
    and nofault: "\<forall>op. fault env op = None"
    and row: "row = \<lparr>lc_ID = livecomments_next_id (dbConn w), lc_UserID = uid,
                     lc_LivestreamID = L, lc_Comment = req_Comment req, lc_Tip = req_Tip req,
                     lc_CreatedAt = Unix now\<rparr>"
    and fill: "fst (fillLivecommentResponse env now w row None) = Inr lc"
  shows "fst (postLivecommentHandler env now w r) = JSON StatusCreated lc
       \<and> livecomments (dbConn (snd (postLivecommentHandler env now w r)))
           = livecomments (dbConn w) @ [row]"
proof -
  from valid have v: "verifyUserSession now (sess r) = (None :: 'ls Livecomment response option)"
    and u: "USERID (sess r) = Some uid"
    by (simp_all add: verifyUserSession_valid sessionValid_def)
  let ?d = "(dbConn w)\<lparr>livecomments := livecomments (dbConn w) @ [row],
                        livecomments_next_id := livecomments_next_id (dbConn w) + 1\<rparr>"
  have main: "fst (postLivecommentHandler env now w r) = JSON StatusCreated lc
       \<and> livecomments (dbConn (snd (postLivecommentHandler env now w r)))
           = livecomments (dbConn w) @ [row]"
    if w7: "dbConn w7 = ?d" "userCache w7 = userCache w"
      and step: "postLivecommentHandler env now w r =
           (case fillLivecommentResponse env now w7 row None of
              (Inl err, w8) \<Rightarrow>
                (HTTPError StatusInternalServerError
                   (''failed to fill livecomment: '' @ Error err), Rollback w w8)
            | (Inr livecomment, w8) \<Rightarrow> (JSON StatusCreated livecomment, logE (DB Commit) w8))"
    for w7
  proof -
    have "fst (fillLivecommentResponse env now w7 row None)
            = fst (fillLivecommentResponse env now w row None)"
      by (rule fillLivecommentResponse_fst_cong) (simp_all add: w7)
    with fill obtain w8 where f: "fillLivecommentResponse env now w7 row None = (Inr lc, w8)"
      by (cases "fillLivecommentResponse env now w7 row None") auto
    from fillLivecommentResponse_state[OF f] w7 have "dbConn w8 = ?d" by simp
    then show ?thesis by (simp add: step f logE_def)
  qed
  from consulted show ?thesis
  proof
    assume hit: "Load (ngWordsCache w) (ls_UserID ls) = Some ws"
    define w7 where "w7 = w\<lparr>dbConn := ?d,
        trace := trace w @ [DB Begin, GetLivestream L, NgWordsLoad (ls_UserID ls),
                            DB InsertLivecomment, DB LastInsertId]\<rparr>"
    show ?thesis
    proof (rule main[of w7])
      show "dbConn w7 = ?d" "userCache w7 = userCache w" by (simp_all add: w7_def)
      show "postLivecommentHandler env now w r =
           (case fillLivecommentResponse env now w7 row None of
              (Inl err, w8) \<Rightarrow>
                (HTTPError StatusInternalServerError
                   (''failed to fill livecomment: '' @ Error err), Rollback w w8)
            | (Inr livecomment, w8) \<Rightarrow> (JSON StatusCreated livecomment, logE (DB Commit) w8))"
        unfolding w7_def row
        by (simp add: post_defs v u lid body stream hit nospam nofault
            split: prod.splits sum.splits)
    qed
  next
    assume miss: "Load (ngWordsCache w) (ls_UserID ls) = None
                  \<and> selectNgWords env (dbConn w) (ls_ID ls) = Inr ws"
    define w7 where "w7 = w\<lparr>ngWordsCache := Store (ngWordsCache w) (ls_ID ls) ws,
        dbConn := ?d,
        trace := trace w @ [DB Begin, GetLivestream L, NgWordsLoad (ls_UserID ls),
                            DB SelectNgWords, NgWordsStore (ls_ID ls),
                            DB InsertLivecomment, DB LastInsertId]\<rparr>"
    show ?thesis
    proof (rule main[of w7])
      show "dbConn w7 = ?d" "userCache w7 = userCache w" by (simp_all add: w7_def)
      show "postLivecommentHandler env now w r =
           (case fillLivecommentResponse env now w7 row None of
              (Inl err, w8) \<Rightarrow>
                (HTTPError StatusInternalServerError
                   (''failed to fill livecomment: '' @ Error err), Rollback w w8)
            | (Inr livecomment, w8) \<Rightarrow> (JSON StatusCreated livecomment, logE (DB Commit) w8))"
        unfolding w7_def row
        by (simp add: post_defs v u lid body stream miss nospam nofault
            split: prod.splits sum.splits)
    qed
  qed
qed

lemmas post_eval = postLivecommentHandler_def insertLivecomment_def Rollback_def
  fillLivecommentResponse_def user_defs verifyUserSession_def
  selectNgWords_def Unix_def postComment_def viewerSession_def viewerUser_def wEmpty_def
  envW_def dbW_def

text \<open>
  C5. For a comment request that reaches the spam check with the consulted list \<open>ws\<close>
  (the cache entry the handler loaded or, on a miss, the rows it fetched): the response is
  the spam rejection exactly when some word of \<open>ws\<close> occurs in the comment, byte for
  byte. A rejected comment leaves the tables as they were. A comment that contains no word
  of the list is, when no statement fails and its response can be assembled, answered
  with status 201 and appended to the comments table.
\<close>

theorem C5_spam_check_is_exact_substring_match:
  fixes env :: "'ls env"
  assumes valid: "sessionValid now (sess r) uid" and lid: "livestream_id r = Some L"
    and body: "body r = Decoded (Some req)" and beg: "fault env Begin = None"
    and stream: "getLivestream env L = Inr ls"
    and consulted: "Load (ngWordsCache w) (ls_UserID ls) = Some ws
                    \<or> (Load (ngWordsCache w) (ls_UserID ls) = None
                        \<and> selectNgWords env (dbConn w) (ls_ID ls) = Inr ws)"
    and run: "postLivecommentHandler env now w r = (resp, w')"
  shows "(resp = HTTPError StatusBadRequest spamMessage
            \<longleftrightarrow> (\<exists>x \<in> set ws. \<exists>pre post. req_Comment req = pre @ ng_Word x @ post))
       \<and> ((\<exists>x \<in> set ws. \<exists>pre post. req_Comment req = pre @ ng_Word x @ post)
            \<longrightarrow> dbConn w' = dbConn w)
       \<and> (\<forall>row lc.
             \<not> (\<exists>x \<in> set ws. \<exists>pre post. req_Comment req = pre @ ng_Word x @ post)
             \<and> (\<forall>op. fault env op = None)
             \<and> row = \<lparr>lc_ID = livecomments_next_id (dbConn w), lc_UserID = uid,
                      lc_LivestreamID = L, lc_Comment = req_Comment req, lc_Tip = req_Tip req,
                      lc_CreatedAt = Unix now\<rparr>
             \<and> fst (fillLivecommentResponse env now w row None) = Inr lc
             \<longrightarrow> resp = JSON StatusCreated lc \<and> c_Comment lc = req_Comment req
               \<and> livecomments (dbConn w') = livecomments (dbConn w) @ [row])"
proof -
  have hit_iff: "spamHit (req_Comment req) ws
       \<longleftrightarrow> (\<exists>x \<in> set ws. \<exists>pre post. req_Comment req = pre @ ng_Word x @ post)"
    by (simp add: spamHit_iff sublist_def)
  have a: "resp = HTTPError StatusBadRequest spamMessage \<longleftrightarrow> spamHit (req_Comment req) ws"
  proof (cases "spamHit (req_Comment req) ws")
    case True
    from postLivecommentHandler_rejects(1)[OF valid lid body beg stream consulted True]
      run True show ?thesis by simp
  next
    case False
    from postLivecommentHandler_not_rejected[OF valid lid body beg stream consulted False]
      run False show ?thesis by simp
  qed
  have b: "dbConn w' = dbConn w" if "spamHit (req_Comment req) ws"
    using postLivecommentHandler_rejects(2)[OF valid lid body beg stream consulted that]
      run by simp
  have c: "resp = JSON StatusCreated lc \<and> c_Comment lc = req_Comment req
               \<and> livecomments (dbConn w') = livecomments (dbConn w) @ [row]"
    if ns: "\<not> spamHit (req_Comment req) ws" and nf: "\<forall>op. fault env op = None"
      and row: "row = \<lparr>lc_ID = livecomments_next_id (dbConn w), lc_UserID = uid,
                      lc_LivestreamID = L, lc_Comment = req_Comment req, lc_Tip = req_Tip req,
                      lc_CreatedAt = Unix now\<rparr>"
      and fill: "fst (fillLivecommentResponse env now w row None) = Inr lc" for row lc
  proof -
    from fill obtain w1 where "fillLivecommentResponse env now w row None = (Inr lc, w1)"
      by (cases "fillLivecommentResponse env now w row None") auto
    from fillLivecommentResponse_Inr[OF this] row have "c_Comment lc = req_Comment req" by simp
    with postLivecommentHandler_accepts[OF valid lid body stream consulted ns nf row fill] run
    show ?thesis by simp
  qed
  from a b c show ?thesis unfolding hit_iff[symmetric] by blast
qed

theorem C5_witness:
  "sessionValid 0 viewerSession 8
   \<and> selectNgWords envW dbW 42 = Inr (ng_words dbW)
   \<and> fst (postLivecommentHandler envW 0 wEmpty (postComment viewerSession 42 ''this is spam''))
       = HTTPError StatusBadRequest spamMessage
   \<and> dbConn (snd (postLivecommentHandler envW 0 wEmpty
                    (postComment viewerSession 42 ''this is spam''))) = dbW
   \<and> fst (postLivecommentHandler envW 0 wEmpty (postComment viewerSession 42 ''this is fine''))
       = JSON StatusCreated
           \<lparr>c_ID = 3, c_User = viewerUser, c_Livestream = (), c_Comment = ''this is fine'',
            c_Tip = 0, c_CreatedAt = 0\<rparr>
   \<and> livecomments (dbConn (snd (postLivecommentHandler envW 0 wEmpty
                                  (postComment viewerSession 42 ''this is fine''))))
       = livecomments dbW @
         [\<lparr>lc_ID = 3, lc_UserID = 8, lc_LivestreamID = 42, lc_Comment = ''this is fine'',
           lc_Tip = 0, lc_CreatedAt = 0\<rparr>]
   \<and> fst (postLivecommentHandler envW 0 wEmpty (postComment viewerSession 42 ''this is SPAM''))
       = JSON StatusCreated
           \<lparr>c_ID = 3, c_User = viewerUser, c_Livestream = (), c_Comment = ''this is SPAM'',
            c_Tip = 0, c_CreatedAt = 0\<rparr>"
proof -
  let ?spam = "postComment viewerSession 42 ''this is spam''"
  let ?fine = "postComment viewerSession 42 ''this is fine''"
  let ?row = "\<lparr>lc_ID = 3, lc_UserID = 8, lc_LivestreamID = 42, lc_Comment = ''this is fine'',
               lc_Tip = 0, lc_CreatedAt = 0\<rparr>"
  let ?lc = "\<lparr>c_ID = 3, c_User = viewerUser, c_Livestream = (), c_Comment = ''this is fine'',
              c_Tip = 0, c_CreatedAt = 0\<rparr>"
  have v0: "sessionValid 0 viewerSession 8"
    by (simp add: sessionValid_def viewerSession_def Unix_def Second_def Millisecond_def)
  have v: "sessionValid 0 (sess ?spam) 8" "sessionValid 0 (sess ?fine) 8"
    using v0 by (simp_all add: postComment_def)
  have l: "livestream_id ?spam = Some 42" "livestream_id ?fine = Some 42"
    by (simp_all add: postComment_def)
  have b: "body ?spam = Decoded (Some \<lparr>req_Comment = ''this is spam'', req_Tip = 0\<rparr>)"
    "body ?fine = Decoded (Some \<lparr>req_Comment = ''this is fine'', req_Tip = 0\<rparr>)"
    by (simp_all add: postComment_def)
  have beg: "fault envW Begin = None" and nf: "\<forall>op. fault envW op = None"
    by (simp_all add: envW_def)
  have g: "getLivestream envW 42 = Inr \<lparr>ls_ID = 42, ls_UserID = 7\<rparr>" by (simp add: envW_def)
  have sel: "selectNgWords envW dbW 42 = Inr (ng_words dbW)"
    by (simp add: selectNgWords_def envW_def dbW_def)
  have consulted:
    "Load (ngWordsCache wEmpty) (ls_UserID \<lparr>ls_ID = 42, ls_UserID = 7\<rparr>) = Some (ng_words dbW)
     \<or> (Load (ngWordsCache wEmpty) (ls_UserID \<lparr>ls_ID = 42, ls_UserID = 7\<rparr>) = None
         \<and> selectNgWords envW (dbConn wEmpty) (ls_ID \<lparr>ls_ID = 42, ls_UserID = 7\<rparr>)
             = Inr (ng_words dbW))"
    using sel by (simp add: Load_def wEmpty_def)
  have in_spam: "\<exists>x \<in> set (ng_words dbW). \<exists>pre post.
                   ''this is spam'' = pre @ ng_Word x @ post"
    by (intro bexI[of _ "hd (ng_words dbW)"] exI[of _ "''this is ''"] exI[of _ "[]"])
       (simp_all add: dbW_def)
  have not_in_fine: "\<not> (\<exists>x \<in> set (ng_words dbW). \<exists>pre post.
                   ''this is fine'' = pre @ ng_Word x @ post)"
  proof -
    have "\<not> Contains ''this is fine'' ''spam''" by simp
    then show ?thesis by (simp add: Contains_sublist sublist_def dbW_def)
  qed
  have fill: "fst (fillLivecommentResponse envW 0 wEmpty ?row None) = Inr ?lc"
    by (simp add: post_eval)
  have rowW: "?row = \<lparr>lc_ID = livecomments_next_id (dbConn wEmpty), lc_UserID = 8,
                      lc_LivestreamID = 42,
                      lc_Comment = req_Comment \<lparr>req_Comment = ''this is fine'', req_Tip = 0\<rparr>,
                      lc_Tip = req_Tip \<lparr>req_Comment = ''this is fine'', req_Tip = 0\<rparr>,
                      lc_CreatedAt = Unix 0\<rparr>"
    by (simp add: wEmpty_def dbW_def Unix_def)
  note spam = C5_spam_check_is_exact_substring_match[OF v(1) l(1) b(1) beg g consulted,
      of "fst (postLivecommentHandler envW 0 wEmpty ?spam)"
         "snd (postLivecommentHandler envW 0 wEmpty ?spam)", simplified prod.collapse]
  note fine = C5_spam_check_is_exact_substring_match[OF v(2) l(2) b(2) beg g consulted,
      of "fst (postLivecommentHandler envW 0 wEmpty ?fine)"
         "snd (postLivecommentHandler envW 0 wEmpty ?fine)", simplified prod.collapse]
  from spam in_spam
  have r1: "fst (postLivecommentHandler envW 0 wEmpty ?spam) = HTTPError StatusBadRequest spamMessage"
    and r2: "dbConn (snd (postLivecommentHandler envW 0 wEmpty ?spam)) = dbW"
    by (simp_all add: wEmpty_def)
  from fine[THEN conjunct2, THEN conjunct2, rule_format, of ?row ?lc] not_in_fine nf rowW fill
  have r3: "fst (postLivecommentHandler envW 0 wEmpty ?fine) = JSON StatusCreated ?lc"
    and r4: "livecomments (dbConn (snd (postLivecommentHandler envW 0 wEmpty ?fine)))
               = livecomments dbW @ [?row]"
    by (simp_all add: wEmpty_def)
  have r5: "fst (postLivecommentHandler envW 0 wEmpty (postComment viewerSession 42 ''this is SPAM''))
       = JSON StatusCreated
           \<lparr>c_ID = 3, c_User = viewerUser, c_Livestream = (), c_Comment = ''this is SPAM'',
            c_Tip = 0, c_CreatedAt = 0\<rparr>"
    by (simp add: post_eval)
  from v0 sel r1 r2 r3 r4 r5 show ?thesis by simp
qed

text \<open>
  C2 (the lookup and the store of one comment request use the stream id) fails on the
  code. User 8 comments on stream 42, which user 7 owns, with empty caches: the handler
  loads the entry under 7, the owner's user id, misses, fetches the words of stream 42 and
  stores them under 42; the entry under 7 is still absent afterwards. When an entry sits
  under key 7, here the empty list, it is the list the comment is checked against: the
  comment \<open>this is spam\<close> is accepted on stream 42, where \<open>spam\<close> is banned.
\<close>

theorem C2_loads_under_owner_id_stores_under_stream_id:
  "take 5 (trace (snd (postLivecommentHandler envW 0 wEmpty
                         (postComment viewerSession 42 ''hello''))))
     = [DB Begin, GetLivestream 42, NgWordsLoad 7, DB SelectNgWords, NgWordsStore 42]
   \<and> Load (ngWordsCache (snd (postLivecommentHandler envW 0 wEmpty
                                 (postComment viewerSession 42 ''hello'')))) 7 = None
   \<and> Load (ngWordsCache (snd (postLivecommentHandler envW 0 wEmpty
                                 (postComment viewerSession 42 ''hello'')))) 42
       = Some (ng_words dbW)
   \<and> fst (postLivecommentHandler envW 0 (wEmpty\<lparr>ngWordsCache := [7 \<mapsto> []]\<rparr>)
             (postComment viewerSession 42 ''this is spam''))
       = JSON StatusCreated
           \<lparr>c_ID = 3, c_User = viewerUser, c_Livestream = (), c_Comment = ''this is spam'',
            c_Tip = 0, c_CreatedAt = 0\<rparr>"
  by (simp add: post_eval)

subsection \<open>The moderation write and the comment path\<close>

lemmas chain_eval = post_eval moderateHandler_def moderateHandler_commit_def insertNgWord_def
  deleteLivecomments_def Delete_def envStreams_def moderateScam_def ownerSession_def

text \<open>
  C3 (after the delay every lookup of the stream's words gives the list with the new word)
  fails on the code. The write itself runs in the order the claim gives, and the listing
  endpoint reads the new list once the entry is deleted. The comment handler, however,
  looks the list up under the owner's user id, an entry that the deletion under the stream
  id never removes. Starting from empty caches: user 8 comments on stream 7, which stores
  the empty list of stream 7 under key 7; user 7, the owner of stream 42, bans \<open>scam\<close> on
  stream 42, and after the commit and the sleep of 500 ms the entry under 42 is deleted;
  one second after the write user 8 posts \<open>buy scam now\<close> on stream 42. The handler loads
  the entry under 7, finds the empty list, and accepts the comment.
\<close>

theorem C3_comment_after_delay_misses_new_word:
  "(let (r1, w1) = postLivecommentHandler envStreams 0 wEmpty (postComment viewerSession 7 ''hi'');
        (r2, w2) = moderateHandler envStreams 150000000000 w1 (moderateScam ownerSession);
        (r3, w3) = postLivecommentHandler envStreams 151000000000 w2
                     (postComment viewerSession 42 ''buy scam now'')
    in Load (ngWordsCache w1) 7 = Some []
     \<and> r2 = JSON StatusCreated 2
     \<and> trace w2 = trace w1 @ [DB Begin, GetLivestream 42, DB InsertNgWord, DB LastInsertId,
                                DB DeleteLivecomments, DB Commit, Sleep 500000000,
                                NgWordsDelete 42]
     \<and> ng_words (dbConn w2) = ng_words dbW @
          [\<lparr>ng_ID = 2, ng_UserID = 7, ng_LivestreamID = 42, ng_Word = ''scam'',
            ng_CreatedAt = 150\<rparr>]
     \<and> Load (ngWordsCache w2) 42 = None
     \<and> Load (ngWordsCache w2) 7 = Some []
     \<and> r3 = JSON StatusCreated
               \<lparr>c_ID = 4, c_User = viewerUser, c_Livestream = (), c_Comment = ''buy scam now'',
                c_Tip = 0, c_CreatedAt = 151\<rparr>
     \<and> take 3 (drop (length (trace w2)) (trace w3))
         = [DB Begin, GetLivestream 42, NgWordsLoad 7]
     \<and> lc_Comment (last (livecomments (dbConn w3))) = ''buy scam now'')"
proof -
  have run1: "postLivecommentHandler envStreams 0 wEmpty (postComment viewerSession 7 ''hi'')
      = (JSON StatusCreated
           \<lparr>c_ID = 3, c_User = viewerUser, c_Livestream = (), c_Comment = ''hi'',
            c_Tip = 0, c_CreatedAt = 0\<rparr>,
         wEmpty\<lparr>ngWordsCache := [7 \<mapsto> []],
                dbConn := dbW\<lparr>livecomments := livecomments dbW @
                                 [\<lparr>lc_ID = 3, lc_UserID = 8, lc_LivestreamID = 7,
                                   lc_Comment = ''hi'', lc_Tip = 0, lc_CreatedAt = 0\<rparr>],
                               livecomments_next_id := 4\<rparr>,
                userCache := [8 \<mapsto> \<lparr>user = viewerUser, fetchedAt = 0\<rparr>],
                trace := [DB Begin, GetLivestream 7, NgWordsLoad 8, DB SelectNgWords,
                          NgWordsStore 7, DB InsertLivecomment, DB LastInsertId, UserLoad 8,
                          DB SelectUser, DB SelectTheme, FS StatIcon, FS ReadFallback,
                          UserStore 8, GetLivestream 7, FillLivestreamResponse 7,
                          DB Commit]\<rparr>)"
    by (simp add: chain_eval)
  show ?thesis
    unfolding run1
    by (simp add: chain_eval)
qed

end
